theory Spec2Isabelle
  imports Complex_Main "HOL-Library.Char_ord" "HOL-Library.List_Lexorder" "HOL-Library.Multiset"
begin

section \<open>Python values and exceptions\<close>

text \<open>
  The cache metadata is a JSON document: \<open>json.load\<close> returns \<open>None\<close>, booleans, numbers,
  strings, lists and dictionaries with string keys. Numbers are modelled by their
  mathematical value: Python compares \<open>int\<close> and finite \<open>float\<close> values exactly, so
  \<open>1 == 1.0\<close> holds and both are \<open>PNum 1\<close>. Non-finite floats (which JSON does not
  have and \<open>os.stat\<close> never returns) are outside this type. A dictionary is an
  association list whose first binding of a key is the one that counts.
\<close>

datatype pyval = PNone | PBool bool | PNum rat | PStr string
  | PList "pyval list" | PDict "(string \<times> pyval) list"

datatype exn = AttributeError | IndexError | KeyError | TypeError | ValueError
  | LinAlgError | OSError

text \<open>Python's \<open>==\<close> on these values: \<open>True == 1\<close>, lists compare elementwise,
  dictionaries compare by key set and value per key, whatever the order.\<close>

function py_eq :: "pyval \<Rightarrow> pyval \<Rightarrow> bool" where
  "py_eq PNone w = (w = PNone)"
| "py_eq (PBool b) w =
    (case w of PBool c \<Rightarrow> b = c | PNum r \<Rightarrow> r = (if b then 1 else 0) | _ \<Rightarrow> False)"
| "py_eq (PNum r) w =
    (case w of PNum s \<Rightarrow> r = s | PBool c \<Rightarrow> r = (if c then 1 else 0) | _ \<Rightarrow> False)"
| "py_eq (PStr s) w = (w = PStr s)"
| "py_eq (PList xs) w = (case w of PList ys \<Rightarrow> list_all2 py_eq xs ys | _ \<Rightarrow> False)"
| "py_eq (PDict d) w =
    (case w of
       PDict e \<Rightarrow>
         set (map fst d) = set (map fst e) \<and>
         (\<forall>k \<in> set (map fst d).
            case map_of d k of
              None \<Rightarrow> False
            | Some v \<Rightarrow> (case map_of e k of None \<Rightarrow> False | Some v' \<Rightarrow> py_eq v v'))
     | _ \<Rightarrow> False)"
  by pat_completeness auto
termination
  apply (relation "measure (\<lambda>(v, w). size v)")
    apply simp
   apply (auto dest!: map_of_SomeD simp: less_Suc_eq_le size_list_estimation')
  done

text \<open>\<open>obj.get(key, default)\<close>: only a dictionary has the method; on anything else the
  attribute lookup raises \<open>AttributeError\<close>.\<close>

definition py_get :: "pyval \<Rightarrow> string \<Rightarrow> pyval \<Rightarrow> exn + pyval" where
  "py_get obj k dflt =
     (case obj of
        PDict d \<Rightarrow> Inr (case map_of d k of None \<Rightarrow> dflt | Some v \<Rightarrow> v)
      | _ \<Rightarrow> Inl AttributeError)"

text \<open>Sequencing of computations that may raise.\<close>

definition bind_exn :: "exn + 'a \<Rightarrow> ('a \<Rightarrow> exn + 'b) \<Rightarrow> exn + 'b" where
  "bind_exn m f = (case m of Inl e \<Rightarrow> Inl e | Inr x \<Rightarrow> f x)"

text \<open>Python's \<open>p and q\<close> on booleans: \<open>q\<close> is evaluated only when \<open>p\<close> is true.\<close>

definition py_and :: "exn + bool \<Rightarrow> exn + bool \<Rightarrow> exn + bool" where
  "py_and p q = (case p of Inl e \<Rightarrow> Inl e | Inr b \<Rightarrow> (if b then q else Inr False))"

section \<open>cache_io: fingerprints\<close>

text \<open>
  \<open>_file_fingerprint(path)\<close>. The file system is the function \<open>stat\<close>: for a path it gives
  the resolved path, the size and the modification time, or \<open>None\<close> when \<open>Path.stat\<close>
  (or \<open>resolve\<close>) raises.
\<close>

definition file_fingerprint :: "(string \<Rightarrow> (string \<times> int \<times> rat) option) \<Rightarrow> string \<Rightarrow> pyval" where
  "file_fingerprint stat path =
     (case stat path of
        Some (resolved, sz, mt) \<Rightarrow>
          PDict [(''path'', PStr resolved), (''size'', PNum (of_int sz)), (''mtime'', PNum mt)]
      | None \<Rightarrow> PDict [(''path'', PStr path), (''size'', PNone), (''mtime'', PNone)])"

text \<open>The tile table as far as \<open>_tiles_signature\<close> reads it: the column \<open>tile_key\<close> and the
  column \<open>key\<close>, each already as strings, \<open>None\<close> when reading the column raises.\<close>

record tiles_gdf =
  tile_key_col :: "string list option"
  key_col :: "string list option"

definition join_nl :: "string list \<Rightarrow> string" where
  "join_nl xs = (case xs of [] \<Rightarrow> [] | y # ys \<Rightarrow> foldl (\<lambda>acc s. acc @ [CHR 0x0A] @ s) y ys)"

text \<open>\<open>_tiles_signature(tiles_gdf)\<close>; \<open>sha256\<close> is the hex digest of \<open>hashlib\<close>, a parameter.\<close>

definition tiles_signature :: "(string \<Rightarrow> string) \<Rightarrow> tiles_gdf \<Rightarrow> pyval" where
  "tiles_signature sha256 tiles =
     (case (case tile_key_col tiles of Some ks \<Rightarrow> Some ks | None \<Rightarrow> key_col tiles) of
        None \<Rightarrow> PDict [(''n_tiles'', PNone), (''keys_hash'', PNone)]
      | Some keys_list \<Rightarrow>
          (let keys_sorted = sort keys_list;
               h = sha256 (join_nl keys_sorted)
           in PDict [(''n_tiles'', PNum (of_nat (length keys_sorted))), (''keys_hash'', PStr h)]))"

definition ALGO_VERSION :: string where
  "ALGO_VERSION = ''2025-11-14a''"

definition make_cache_key ::
  "(string \<Rightarrow> (string \<times> int \<times> rat) option) \<Rightarrow> (string \<Rightarrow> string) \<Rightarrow>
   string \<Rightarrow> string \<Rightarrow> rat \<Rightarrow> int option \<Rightarrow> int \<Rightarrow> tiles_gdf \<Rightarrow> pyval" where
  "make_cache_key stat sha256 parcels_path tiles_path buffer_feet crs_epsg_feet k_neighbors
       tiles_after_filter =
     PDict [
       (''parcels'', file_fingerprint stat parcels_path),
       (''tiles'', file_fingerprint stat tiles_path),
       (''params'', PDict [
          (''buffer_feet'', PNum buffer_feet),
          (''crs_epsg_feet'', (case crs_epsg_feet of None \<Rightarrow> PNone | Some c \<Rightarrow> PNum (of_int c))),
          (''k_neighbors'', PNum (of_int k_neighbors))]),
       (''tiles_sig'', tiles_signature sha256 tiles_after_filter),
       (''algo_version'', PStr ALGO_VERSION)]"

section \<open>cache_io: cache_valid\<close>

text \<open>One conjunct \<open>cached_meta.get(k) == current_meta.get(k)\<close>, evaluated left to right.\<close>

definition cmp_top :: "pyval \<Rightarrow> pyval \<Rightarrow> string \<Rightarrow> exn + bool" where
  "cmp_top cached_meta current_meta k =
     bind_exn (py_get cached_meta k PNone) (\<lambda>x.
     bind_exn (py_get current_meta k PNone) (\<lambda>y.
     Inr (py_eq x y)))"

text \<open>One conjunct \<open>cached_meta.get(k, {}).get(f) == current_meta.get(k, {}).get(f)\<close>.\<close>

definition cmp_sub :: "pyval \<Rightarrow> pyval \<Rightarrow> string \<Rightarrow> string \<Rightarrow> exn + bool" where
  "cmp_sub cached_meta current_meta k f =
     bind_exn (py_get cached_meta k (PDict [])) (\<lambda>cd.
     bind_exn (py_get cd f PNone) (\<lambda>x.
     bind_exn (py_get current_meta k (PDict [])) (\<lambda>md.
     bind_exn (py_get md f PNone) (\<lambda>y.
     Inr (py_eq x y)))))"

text \<open>The expression inside the \<open>try\<close> of \<open>cache_valid\<close>.\<close>

definition cache_valid_body :: "pyval \<Rightarrow> pyval \<Rightarrow> exn + bool" where
  "cache_valid_body cached_meta current_meta =
     py_and (cmp_top cached_meta current_meta ''algo_version'')
    (py_and (cmp_top cached_meta current_meta ''params'')
    (py_and (cmp_top cached_meta current_meta ''tiles_sig'')
    (py_and (cmp_sub cached_meta current_meta ''parcels'' ''mtime'')
    (py_and (cmp_sub cached_meta current_meta ''parcels'' ''size'')
    (py_and (cmp_sub cached_meta current_meta ''tiles'' ''mtime'')
            (cmp_sub cached_meta current_meta ''tiles'' ''size''))))))"

text \<open>\<open>cache_valid\<close>: any exception of the body is caught and gives \<open>False\<close>.\<close>

definition cache_valid :: "pyval \<Rightarrow> pyval \<Rightarrow> bool" where
  "cache_valid cached_meta current_meta =
     (case cache_valid_body cached_meta current_meta of Inl e \<Rightarrow> False | Inr b \<Rightarrow> b)"

section \<open>Vocabulary for the properties of cache_valid\<close>

text \<open>
  What the properties below speak about: \<open>field v k\<close> is the value of \<open>v.get(k)\<close> and
  \<open>ident v k\<close> the value of \<open>v.get(k, {})\<close> on a dictionary; \<open>with_item v k x\<close> is the
  dictionary after \<open>v[k] = x\<close>, and \<open>with_sub v k f x\<close> the one after \<open>v[k][f] = x\<close>.
  \<open>fields_agree\<close> lists the seven comparisons of \<open>cache_valid\<close>; \<open>well_shaped\<close> says that
  the fingerprint is a dictionary whose two file identities, when present, are dictionaries.
\<close>

definition is_dict :: "pyval \<Rightarrow> bool" where
  "is_dict v = (case v of PDict d \<Rightarrow> True | _ \<Rightarrow> False)"

definition field :: "pyval \<Rightarrow> string \<Rightarrow> pyval" where
  "field v k = (case v of PDict d \<Rightarrow> (case map_of d k of None \<Rightarrow> PNone | Some x \<Rightarrow> x) | _ \<Rightarrow> PNone)"

definition ident :: "pyval \<Rightarrow> string \<Rightarrow> pyval" where
  "ident v k = (case v of PDict d \<Rightarrow> (case map_of d k of None \<Rightarrow> PDict [] | Some x \<Rightarrow> x) | _ \<Rightarrow> PDict [])"

definition with_item :: "pyval \<Rightarrow> string \<Rightarrow> pyval \<Rightarrow> pyval" where
  "with_item v k x = (case v of PDict d \<Rightarrow> PDict ((k, x) # d) | _ \<Rightarrow> v)"

definition with_sub :: "pyval \<Rightarrow> string \<Rightarrow> string \<Rightarrow> pyval \<Rightarrow> pyval" where
  "with_sub v k f x = with_item v k (with_item (ident v k) f x)"

definition fields_agree :: "pyval \<Rightarrow> pyval \<Rightarrow> bool" where
  "fields_agree c m \<longleftrightarrow>
     py_eq (field c ''algo_version'') (field m ''algo_version'') \<and>
     py_eq (field c ''params'') (field m ''params'') \<and>
     py_eq (field c ''tiles_sig'') (field m ''tiles_sig'') \<and>
     py_eq (field (ident c ''parcels'') ''mtime'') (field (ident m ''parcels'') ''mtime'') \<and>
     py_eq (field (ident c ''parcels'') ''size'') (field (ident m ''parcels'') ''size'') \<and>
     py_eq (field (ident c ''tiles'') ''mtime'') (field (ident m ''tiles'') ''mtime'') \<and>
     py_eq (field (ident c ''tiles'') ''size'') (field (ident m ''tiles'') ''size'')"

definition well_shaped :: "pyval \<Rightarrow> bool" where
  "well_shaped m \<longleftrightarrow> is_dict m \<and> is_dict (ident m ''parcels'') \<and> is_dict (ident m ''tiles'')"

text \<open>A fingerprint as \<open>make_cache_key\<close> builds it, for the examples.\<close>

definition example_stat :: "string \<Rightarrow> (string \<times> int \<times> rat) option" where
  "example_stat path =
     (if path = ''parcels.gpkg'' then Some (''/data/parcels.gpkg'', 4096, 1700000000)
      else if path = ''tiles.gpkg'' then Some (''/data/tiles.gpkg'', 512, 1700000500)
      else None)"

definition example_tiles :: tiles_gdf where
  "example_tiles = \<lparr>tile_key_col = Some [''t2'', ''t1''], key_col = None\<rparr>"

definition example_meta :: pyval where
  "example_meta =
     make_cache_key example_stat (\<lambda>s. s) ''parcels.gpkg'' ''tiles.gpkg'' 50 (Some 2272) 8
       example_tiles"

section \<open>Degraded fingerprints\<close>

text \<open>A file system on which no path can be stat'ed, an identity digest and a tile table
  without identifier column, and the fingerprint \<open>make_cache_key\<close> builds from them.\<close>

definition no_stat :: "string \<Rightarrow> (string \<times> int \<times> rat) option" where
  "no_stat path = None"

definition example_sha :: "string \<Rightarrow> string" where
  "example_sha s = s"

definition no_id_tiles :: tiles_gdf where
  "no_id_tiles = \<lparr>tile_key_col = None, key_col = None\<rparr>"

definition degraded_meta :: pyval where
  "degraded_meta =
     make_cache_key no_stat example_sha ''parcels.gpkg'' ''tiles.gpkg'' 50 (Some 2272) 8 no_id_tiles"

section \<open>cache_io: the cache files\<close>

text \<open>
  An adjacency graph \<open>Dict[str, Set[str]]\<close> is the list of its items in iteration order,
  each neighbour set as the list of its elements in iteration order. A row of the adjacency
  table is the pair of its columns \<open>tile_a\<close> and \<open>tile_b\<close>.
\<close>

type_synonym adjacency = "(string \<times> string list) list"

type_synonym adj_row = "string \<times> string"

text \<open>
  An edge score handed to \<open>save_cache\<close> is an object with attributes or a dictionary. Each
  of the three entries is \<open>None\<close> when the attribute or key is absent or holds \<open>None\<close>. The
  values already have the documented types, so \<open>float(r2)\<close> and \<open>int(n_obs)\<close> leave
  them as they are; the type of \<open>r2\<close> is a parameter with a zero, Python's \<open>0.0\<close>.
\<close>

datatype 'f edge_score_in =
    EsObject "'f option" "int option" "int option"
  | EsDict "'f option" "int option" "int option"

record 'f score_row =
  tile_a :: string
  tile_b :: string
  r2 :: 'f
  n_obs :: int
  n_sales :: int

text \<open>The inner loop \<open>for b in nbs\<close> of \<open>save_cache\<close>; \<open>str\<close> of a string is the string.\<close>

fun adj_rows_of :: "string \<Rightarrow> string list \<Rightarrow> adj_row list \<Rightarrow> adj_row list" where
  "adj_rows_of a [] rows_adj = rows_adj"
| "adj_rows_of a (b # nbs) rows_adj =
     adj_rows_of a nbs (if a < b then rows_adj @ [(a, b)] else rows_adj)"

text \<open>The outer loop \<open>for a, nbs in adjacency.items()\<close>.\<close>

fun adj_rows_loop :: "adjacency \<Rightarrow> adj_row list \<Rightarrow> adj_row list" where
  "adj_rows_loop [] rows_adj = rows_adj"
| "adj_rows_loop ((a, nbs) # rest) rows_adj = adj_rows_loop rest (adj_rows_of a nbs rows_adj)"

text \<open>The three values \<open>save_cache\<close> writes for one edge score, with the defaults
  \<open>0.0\<close>, \<open>0\<close> and \<open>0\<close>. For a dictionary \<open>getattr\<close> finds no attribute, so \<open>r2\<close> is
  \<open>None\<close> and the three values are read with \<open>es.get\<close>.\<close>

fun score_values :: "('f::zero) edge_score_in \<Rightarrow> 'f \<times> int \<times> int" where
  "score_values (EsObject r n s) =
     (case r of None \<Rightarrow> 0 | Some x \<Rightarrow> x,
      case n of None \<Rightarrow> 0 | Some x \<Rightarrow> x,
      case s of None \<Rightarrow> 0 | Some x \<Rightarrow> x)"
| "score_values (EsDict r n s) =
     (case r of None \<Rightarrow> 0 | Some x \<Rightarrow> x,
      case n of None \<Rightarrow> 0 | Some x \<Rightarrow> x,
      case s of None \<Rightarrow> 0 | Some x \<Rightarrow> x)"

text \<open>The loop \<open>for k, es in edge_scores.items()\<close>. A key is a \<open>frozenset\<close>, the list of its
  elements in iteration order; \<open>a, b = sorted(list(k))\<close> raises unless there are exactly two,
  and then the item is skipped.\<close>

fun score_rows_loop ::
  "(string list \<times> ('f::zero) edge_score_in) list \<Rightarrow> 'f score_row list \<Rightarrow> 'f score_row list" where
  "score_rows_loop [] rows_sc = rows_sc"
| "score_rows_loop ((k, es) # rest) rows_sc =
     (case sort k of
        [a, b] \<Rightarrow>
          (case score_values es of
             (r, n, s) \<Rightarrow>
               score_rows_loop rest
                 (rows_sc @ [\<lparr>tile_a = a, tile_b = b, r2 = r, n_obs = n, n_sales = s\<rparr>]))
      | _ \<Rightarrow> score_rows_loop rest rows_sc)"

text \<open>
  The cache directory. A file is missing, or it exists and reading it raises (corrupt,
  no permission), or it exists and holds a value; JSON and Parquet give back the value
  that was written. \<open>mkdir_ok\<close> says whether \<open>cache_paths\<close> can create the directory, and
  \<open>write_ok\<close> whether the files can be written.
\<close>

datatype 'a cache_file = Missing | Broken exn | Content 'a

record 'f cache_dir =
  mkdir_ok :: bool
  write_ok :: bool
  meta_file :: "pyval cache_file"
  adj_file :: "adj_row list cache_file"
  scores_file :: "'f score_row list cache_file"

text \<open>\<open>cache_paths\<close>: \<open>d.mkdir(parents=True, exist_ok=True)\<close> raises when it cannot create
  the directory.\<close>

definition cache_paths :: "'f cache_dir \<Rightarrow> exn + unit" where
  "cache_paths fs = (if mkdir_ok fs then Inr () else Inl OSError)"

definition save_cache ::
  "adjacency \<Rightarrow> (string list \<times> ('f::zero) edge_score_in) list \<Rightarrow> pyval \<Rightarrow> 'f cache_dir \<Rightarrow>
     exn + 'f cache_dir" where
  "save_cache adjacency edge_scores meta fs =
     bind_exn (cache_paths fs) (\<lambda>paths.
       if \<not> write_ok fs then Inl OSError
       else
         let rows_adj = adj_rows_loop adjacency [];
             rows_sc = score_rows_loop edge_scores []
         in Inr (fs\<lparr>meta_file := Content meta, adj_file := Content rows_adj,
                     scores_file := Content rows_sc\<rparr>))"

text \<open>Reading one cache file inside the \<open>try\<close> of \<open>load_cache\<close>: \<open>None\<close> when the file does
  not exist.\<close>

definition read_file :: "'a cache_file \<Rightarrow> exn + 'a option" where
  "read_file f = (case f of Missing \<Rightarrow> Inr None | Broken e \<Rightarrow> Inl e | Content x \<Rightarrow> Inr (Some x))"

text \<open>A Python value that may be \<open>None\<close>, as an option: \<open>json.load\<close> gives \<open>None\<close> for a
  file that holds \<open>null\<close>, the same value \<open>meta\<close> has when the file does not exist.\<close>

definition py_optional :: "pyval \<Rightarrow> pyval option" where
  "py_optional v = (if v = PNone then None else Some v)"

definition load_cache ::
  "'f cache_dir \<Rightarrow> exn + (pyval option \<times> adj_row list option \<times> 'f score_row list option)" where
  "load_cache fs =
     bind_exn (cache_paths fs) (\<lambda>paths.
       case bind_exn (read_file (meta_file fs)) (\<lambda>loaded.
            bind_exn (read_file (adj_file fs)) (\<lambda>df_adj.
            bind_exn (read_file (scores_file fs)) (\<lambda>df_scores.
            Inr (Option.bind loaded py_optional, df_adj, df_scores)))) of
         Inl e \<Rightarrow> Inr (None, None, None)
       | Inr res \<Rightarrow> Inr res)"

text \<open>\<open>adj.setdefault(k, set()).add(x)\<close>.\<close>

definition setdefault_add :: "(string \<rightharpoonup> string set) \<Rightarrow> string \<Rightarrow> string \<Rightarrow> (string \<rightharpoonup> string set)" where
  "setdefault_add adj k x = adj(k \<mapsto> insert x (case adj k of None \<Rightarrow> {} | Some s \<Rightarrow> s))"

fun adjacency_loop :: "adj_row list \<Rightarrow> (string \<rightharpoonup> string set) \<Rightarrow> (string \<rightharpoonup> string set)" where
  "adjacency_loop [] adj = adj"
| "adjacency_loop ((a, b) # rows) adj =
     adjacency_loop rows (setdefault_add (setdefault_add adj a b) b a)"

definition df_to_adjacency :: "adj_row list option \<Rightarrow> (string \<rightharpoonup> string set)" where
  "df_to_adjacency df_adj =
     (case df_adj of
        None \<Rightarrow> Map.empty
      | Some rows \<Rightarrow> if length rows = 0 then Map.empty else adjacency_loop rows Map.empty)"

text \<open>The loop of \<open>df_to_edge_scores\<close>: a row with an empty endpoint is skipped; the key is
  \<open>frozenset([a, b])\<close>, the value the dictionary of the three numbers.\<close>

fun edge_scores_loop ::
  "'f score_row list \<Rightarrow> (string set \<rightharpoonup> 'f \<times> int \<times> int) \<Rightarrow> (string set \<rightharpoonup> 'f \<times> int \<times> int)" where
  "edge_scores_loop [] out = out"
| "edge_scores_loop (row # rows) out =
     (let a = tile_a row; b = tile_b row
      in if a = [] \<or> b = [] then edge_scores_loop rows out
         else edge_scores_loop rows (out({a, b} \<mapsto> (r2 row, n_obs row, n_sales row))))"

definition df_to_edge_scores :: "'f score_row list option \<Rightarrow> (string set \<rightharpoonup> 'f \<times> int \<times> int)" where
  "df_to_edge_scores df_scores =
     (case df_scores of
        None \<Rightarrow> Map.empty
      | Some rows \<Rightarrow> if length rows = 0 then Map.empty else edge_scores_loop rows Map.empty)"

text \<open>The neighbour set of a tile in a graph, empty for a tile that is not a key; the
  relation of a graph given as item list.\<close>

definition nbrs :: "(string \<rightharpoonup> string set) \<Rightarrow> string \<Rightarrow> string set" where
  "nbrs adj a = (case adj a of None \<Rightarrow> {} | Some s \<Rightarrow> s)"

definition adj_rel :: "adjacency \<Rightarrow> (string \<times> string) set" where
  "adj_rel adjacency = {(a, b). \<exists>nbs. (a, nbs) \<in> set adjacency \<and> b \<in> set nbs}"

text \<open>What a cache file holds, \<open>None\<close> when it is missing.\<close>

definition file_content :: "'a cache_file \<Rightarrow> 'a option" where
  "file_content f = (case f of Content x \<Rightarrow> Some x | _ \<Rightarrow> None)"

text \<open>The fingerprint a metadata file gives, \<open>None\<close> when the file is missing or holds
  \<open>null\<close>; and the Python value of a fingerprint that may be \<open>None\<close>.\<close>

definition meta_content :: "pyval cache_file \<Rightarrow> pyval option" where
  "meta_content f = Option.bind (file_content f) py_optional"

definition py_of_optional :: "pyval option \<Rightarrow> pyval" where
  "py_of_optional m = (case m of None \<Rightarrow> PNone | Some v \<Rightarrow> v)"

definition is_broken :: "'a cache_file \<Rightarrow> bool" where
  "is_broken f = (case f of Broken e \<Rightarrow> True | _ \<Rightarrow> False)"

text \<open>Cache directories for the examples: one whose adjacency file is missing, one that
  cannot be created, one whose score file is corrupt and one whose metadata file holds
  \<open>null\<close>.\<close>

definition dir_without_adj :: "rat cache_dir" where
  "dir_without_adj =
     \<lparr>mkdir_ok = True, write_ok = True, meta_file = Content example_meta, adj_file = Missing,
      scores_file = Content []\<rparr>"

definition dir_not_creatable :: "rat cache_dir" where
  "dir_not_creatable =
     \<lparr>mkdir_ok = False, write_ok = False, meta_file = Missing, adj_file = Missing,
      scores_file = Missing\<rparr>"

definition dir_corrupt_scores :: "rat cache_dir" where
  "dir_corrupt_scores =
     \<lparr>mkdir_ok = True, write_ok = True, meta_file = Content example_meta, adj_file = Content [],
      scores_file = Broken ValueError\<rparr>"

definition dir_null_meta :: "rat cache_dir" where
  "dir_null_meta =
     \<lparr>mkdir_ok = True, write_ok = True, meta_file = Content PNone, adj_file = Content [],
      scores_file = Content []\<rparr>"


text \<open>For the proofs: the rows one item of the score table contributes, the key and value
  a row contributes to the loaded table, and the rows \<open>df_to_edge_scores\<close> does not skip.\<close>

definition rows_of_item :: "string list \<times> ('f::zero) edge_score_in \<Rightarrow> 'f score_row list" where
  "rows_of_item item =
     (case item of (k, es) \<Rightarrow>
        (case sort k of
           [a, b] \<Rightarrow>
             (case score_values es of
                (r, n, s) \<Rightarrow> [\<lparr>tile_a = a, tile_b = b, r2 = r, n_obs = n, n_sales = s\<rparr>])
         | _ \<Rightarrow> []))"

definition row_kv :: "'f score_row \<Rightarrow> string set \<times> ('f \<times> int \<times> int)" where
  "row_kv row = ({tile_a row, tile_b row}, (r2 row, n_obs row, n_sales row))"

definition row_kept :: "'f score_row \<Rightarrow> bool" where
  "row_kept row \<longleftrightarrow> tile_a row \<noteq> [] \<and> tile_b row \<noteq> []"

text \<open>For the examples: an empty cache directory, a graph on three tiles with its score table
  (one key with its endpoints in descending order, one score given as a dictionary), and a
  score table whose only key contains the empty tile id.\<close>

definition empty_dir :: "rat cache_dir" where
  "empty_dir =
     \<lparr>mkdir_ok = True, write_ok = True, meta_file = Missing, adj_file = Missing,
      scores_file = Missing\<rparr>"

definition example_adjacency :: adjacency where
  "example_adjacency = [(''a'', [''b'']), (''b'', [''c'', ''a'']), (''c'', [''b''])]"

definition example_scores :: "(string list \<times> rat edge_score_in) list" where
  "example_scores =
     [([''b'', ''a''], EsObject (Some (1 / 2)) (Some 4) (Some 4)),
      ([''b'', ''c''], EsDict (Some 1) (Some 5) (Some 3))]"

definition empty_id_scores :: "(string list \<times> rat edge_score_in) list" where
  "empty_id_scores = [([[], ''x''], EsObject (Some 1) (Some 3) (Some 3))]"

definition empty_id_rows :: "rat score_row list" where
  "empty_id_rows = [\<lparr>tile_a = [], tile_b = ''x'', r2 = 1, n_obs = 3, n_sales = 3\<rparr>]"

section \<open>Floats and Python sequences\<close>

text \<open>
  A Python \<open>float\<close>: a finite value, an infinity or NaN. Comparisons are exact; every
  comparison with NaN is false. The arithmetic of floats rounds and is not modelled: where
  the code computes with floats, the operation is a parameter.
\<close>

datatype pyfloat = Fin real | PInf | NInf | NaN

fun flt :: "pyfloat \<Rightarrow> pyfloat \<Rightarrow> bool" where
  "flt (Fin x) (Fin y) = (x < y)"
| "flt (Fin x) PInf = True"
| "flt NInf (Fin y) = True"
| "flt NInf PInf = True"
| "flt _ _ = False"

definition fle :: "pyfloat \<Rightarrow> pyfloat \<Rightarrow> bool" where
  "fle a b = (flt a b \<or> (a = b \<and> a \<noteq> NaN))"

fun isfinite :: "pyfloat \<Rightarrow> bool" where
  "isfinite (Fin x) = True"
| "isfinite _ = False"

text \<open>\<open>min(a, b)\<close> and \<open>max(a, b)\<close> of Python keep the first argument unless the second is
  smaller, respectively larger.\<close>

definition py_min :: "pyfloat \<Rightarrow> pyfloat \<Rightarrow> pyfloat" where
  "py_min a b = (if flt b a then b else a)"

definition py_max :: "pyfloat \<Rightarrow> pyfloat \<Rightarrow> pyfloat" where
  "py_max a b = (if flt a b then b else a)"

text \<open>\<open>xs[i]\<close> on a list: a negative index counts from the end, an index out of range
  raises \<open>IndexError\<close>.\<close>

definition py_index :: "'a list \<Rightarrow> int \<Rightarrow> exn + 'a" where
  "py_index xs i =
     (if i < - int (length xs) \<or> int (length xs) \<le> i then Inl IndexError
      else if i < 0 then Inr (xs ! nat (int (length xs) + i))
      else Inr (xs ! nat i))"

section \<open>mp_helpers: the adjacency worker\<close>

text \<open>
  The geometry engine is a parameter: \<open>intersection\<close> of two geometries gives a geometry
  or raises; \<open>area_attr\<close> reads the attribute \<open>area\<close> and gives its value, or raises
  (\<open>AttributeError\<close> when the object has no such attribute, anything else when computing
  the area or comparing it with \<open>0\<close> fails).
\<close>

record ('g, 'r) geom_engine =
  intersection :: "'g \<Rightarrow> 'g \<Rightarrow> exn + 'r"
  area_attr :: "'r \<Rightarrow> exn + pyfloat"

text \<open>\<open>getattr(inter, "area", 0.0)\<close>: only a missing attribute gives the default.\<close>

definition getattr_area :: "('g, 'r) geom_engine \<Rightarrow> 'r \<Rightarrow> exn + pyfloat" where
  "getattr_area eng isect =
     (case area_attr eng isect of
        Inl e \<Rightarrow> (if e = AttributeError then Inr (Fin 0) else Inl e)
      | Inr a \<Rightarrow> Inr a)"

text \<open>The body of the \<open>try\<close> of \<open>_pair_overlaps_area\<close>. The argument is a tuple, given as
  the list of its components; \<open>BUFFERED_GEOMS\<close> is the global, \<open>None\<close> before the pool
  initializer has run.\<close>

definition pair_overlaps_area_body ::
  "('g, 'r) geom_engine \<Rightarrow> 'g list option \<Rightarrow> int list \<Rightarrow> exn + (int \<times> int) option" where
  "pair_overlaps_area_body eng BUFFERED_GEOMS pair =
     (case pair of
        [i, j] \<Rightarrow>
          (case BUFFERED_GEOMS of
             None \<Rightarrow> Inl TypeError
           | Some geoms \<Rightarrow>
               bind_exn (py_index geoms i) (\<lambda>gi.
               bind_exn (py_index geoms j) (\<lambda>gj.
               bind_exn (intersection eng gi gj) (\<lambda>isect.
               bind_exn (getattr_area eng isect) (\<lambda>a.
               if flt (Fin 0) a then Inr (Some (i, j)) else Inr None)))))
      | _ \<Rightarrow> Inl ValueError)"

definition pair_overlaps_area ::
  "('g, 'r) geom_engine \<Rightarrow> 'g list option \<Rightarrow> int list \<Rightarrow> (int \<times> int) option" where
  "pair_overlaps_area eng BUFFERED_GEOMS pair =
     (case pair_overlaps_area_body eng BUFFERED_GEOMS pair of Inl e \<Rightarrow> None | Inr res \<Rightarrow> res)"

text \<open>For the examples: geometries are intervals of integers, the intersection is the
  common interval and raises on an interval with its ends swapped; the area is the length.\<close>

definition interval_engine :: "(int \<times> int, int \<times> int) geom_engine" where
  "interval_engine =
     \<lparr>intersection = (\<lambda>g h.
         if fst g > snd g \<or> fst h > snd h then Inl ValueError
         else Inr (max (fst g) (fst h), max (max (fst g) (fst h)) (min (snd g) (snd h)))),
      area_attr = (\<lambda>r. Inr (Fin (real_of_int (snd r - fst r))))\<rparr>"

definition example_geoms :: "(int \<times> int) list" where
  "example_geoms = [(0, 10), (8, 20), (20, 30), (5, 1)]"

section \<open>utilities and mp_helpers: the regression score\<close>

text \<open>
  The operations of numpy and of the interpreter that the score uses are parameters.
  \<open>lstsq\<close> solves the least-squares problem for a design matrix (a list of rows) and a
  target vector, or raises. \<open>ss_res\<close> is \<open>np.sum((y - X_.dot(beta)) ** 2)\<close> and \<open>ss_tot\<close> is
  \<open>np.sum((y - y.mean()) ** 2)\<close>: on the arrays a successful \<open>lstsq\<close> has accepted they do
  not raise, numerical trouble shows as an infinity or NaN. \<open>fdiv\<close> and \<open>fsub\<close> are the
  division and subtraction of floats. \<open>union_list\<close> is \<open>list(s | t)\<close> for two sets of
  integers: the elements of the union in the iteration order of the new set, which may
  depend on both operands and on which of them comes first.
\<close>

record 'b np_env =
  lstsq :: "pyfloat list list \<Rightarrow> pyfloat list \<Rightarrow> exn + 'b"
  ss_res :: "pyfloat list list \<Rightarrow> 'b \<Rightarrow> pyfloat list \<Rightarrow> pyfloat"
  ss_tot :: "pyfloat list \<Rightarrow> pyfloat"
  fdiv :: "pyfloat \<Rightarrow> pyfloat \<Rightarrow> pyfloat"
  fsub :: "pyfloat \<Rightarrow> pyfloat \<Rightarrow> pyfloat"
  union_list :: "int set \<Rightarrow> int set \<Rightarrow> int list"

text \<open>\<open>np.column_stack([np.ones(len(X)), X])\<close>: a leading column of ones.\<close>

definition column_stack_ones :: "pyfloat list list \<Rightarrow> pyfloat list list" where
  "column_stack_ones X = map (\<lambda>row. Fin 1 # row) X"

text \<open>\<open>float(max(min(r2, 1.0), -1.0))\<close>.\<close>

definition clamp_r2 :: "pyfloat \<Rightarrow> pyfloat" where
  "clamp_r2 r = py_max (py_min r (Fin 1)) (Fin (- 1))"

text \<open>\<open>ols_r2(y, X)\<close> of utilities: only \<open>LinAlgError\<close> of \<open>lstsq\<close> is caught.\<close>

definition ols_r2 :: "'b np_env \<Rightarrow> pyfloat list \<Rightarrow> pyfloat list list \<Rightarrow> exn + pyfloat" where
  "ols_r2 env y X =
     (let Xd = column_stack_ones X in
      case lstsq env Xd y of
        Inl e \<Rightarrow> (if e = LinAlgError then Inr (Fin 0) else Inl e)
      | Inr beta \<Rightarrow>
          (let res = ss_res env Xd beta y; tot = ss_tot env y in
           if fle tot (Fin 0) then Inr (Fin 0)
           else
             (let r2 = fsub env (Fin 1) (fdiv env res tot) in
              if \<not> isfinite r2 then Inr (Fin 0) else Inr (clamp_r2 r2))))"

text \<open>The computation of \<open>r2\<close> inside \<open>_score_edge_pair_worker\<close>, from \<open>X_ = ...\<close> to the
  clamp: every exception of the inner \<open>try\<close> gives \<open>0.0\<close>.\<close>

definition worker_r2 :: "'b np_env \<Rightarrow> pyfloat list \<Rightarrow> pyfloat list list \<Rightarrow> pyfloat" where
  "worker_r2 env y X =
     (let Xd = column_stack_ones X;
          r2 = (case lstsq env Xd y of
                  Inl e \<Rightarrow> Fin 0
                | Inr beta \<Rightarrow>
                    (let res = ss_res env Xd beta y; tot = ss_tot env y in
                     if fle tot (Fin 0) then Fin 0 else fsub env (Fin 1) (fdiv env res tot)));
          r2 = (if \<not> isfinite r2 then Fin 0 else r2)
      in clamp_r2 r2)"

section \<open>mp_helpers: the edge-scoring worker\<close>

text \<open>
  A cell of the parcel table is a number (NaN is a missing value), \<open>None\<close>, or another
  object, which is never missing and whose conversion by \<open>astype(float)\<close> gives a float or
  raises. The table has its column names and its rows; a row gives the cell of each column.
\<close>

datatype cell = CNum pyfloat | CNone | CObj "pyfloat option"

record parcels_df =
  df_columns :: "string list"
  df_rows :: "(string \<Rightarrow> cell) list"

definition notna :: "cell \<Rightarrow> bool" where
  "notna c = (c \<noteq> CNone \<and> c \<noteq> CNum NaN)"

definition astype_float :: "cell \<Rightarrow> exn + pyfloat" where
  "astype_float c =
     (case c of
        CNum x \<Rightarrow> Inr x
      | CNone \<Rightarrow> Inr NaN
      | CObj conv \<Rightarrow> (case conv of None \<Rightarrow> Inl ValueError | Some x \<Rightarrow> Inr x))"

text \<open>\<open>df.iloc[idxs]\<close>: the rows at the given positions, negative positions counting from
  the end; a position out of range raises \<open>IndexError\<close>.\<close>

definition iloc :: "parcels_df \<Rightarrow> int list \<Rightarrow> exn + parcels_df" where
  "iloc df idxs =
     (let n = int (length (df_rows df)) in
      if list_all (\<lambda>p. - n \<le> p \<and> p < n) idxs
      then Inr (df\<lparr>df_rows := map (\<lambda>p. df_rows df ! nat (if p < 0 then n + p else p)) idxs\<rparr>)
      else Inl IndexError)"

text \<open>\<open>sub[cols].astype(float)\<close> on the three regression columns, row by row.\<close>

fun astype_rows :: "(string \<Rightarrow> cell) list \<Rightarrow> exn + (pyfloat \<times> pyfloat \<times> pyfloat) list" where
  "astype_rows [] = Inr []"
| "astype_rows (row # rest) =
     bind_exn (astype_float (row ''market_value_proxy'')) (\<lambda>v.
     bind_exn (astype_float (row ''built_area_sqft'')) (\<lambda>b.
     bind_exn (astype_float (row ''land_area_sqft'')) (\<lambda>l.
     bind_exn (astype_rows rest) (\<lambda>more. Inr ((v, b, l) # more)))))"

definition dropna :: "(pyfloat \<times> pyfloat \<times> pyfloat) list \<Rightarrow> (pyfloat \<times> pyfloat \<times> pyfloat) list" where
  "dropna df = filter (\<lambda>(v, b, l). v \<noteq> NaN \<and> b \<noteq> NaN \<and> l \<noteq> NaN) df"

text \<open>The globals of the worker process, \<open>None\<close> before the pool initializer has run.\<close>

record payload =
  PARCELS_MIN_DF :: "parcels_df option"
  PARCEL_IDX_BY_TILE :: "(string \<rightharpoonup> int set) option"

text \<open>\<open>_PARCEL_IDX_BY_TILE or {}\<close>.\<close>

definition mapping_of :: "payload \<Rightarrow> (string \<rightharpoonup> int set)" where
  "mapping_of pl = (case PARCEL_IDX_BY_TILE pl of None \<Rightarrow> Map.empty | Some m \<Rightarrow> m)"

text \<open>\<open>(mapping.get(a, set()) or set())\<close>.\<close>

definition idx_of :: "(string \<rightharpoonup> int set) \<Rightarrow> string \<Rightarrow> int set" where
  "idx_of mapping a = (case mapping a of None \<Rightarrow> {} | Some s \<Rightarrow> s)"

text \<open>\<open>int(sub["adj_sale_price"].notna().sum())\<close>, or \<open>0\<close> without the column.\<close>

definition count_sales :: "parcels_df \<Rightarrow> int" where
  "count_sales sub =
     (if ''adj_sale_price'' \<in> set (df_columns sub)
      then int (length (filter (\<lambda>row. notna (row ''adj_sale_price'')) (df_rows sub)))
      else 0)"

definition required_cols :: "string list" where
  "required_cols = [''market_value_proxy'', ''built_area_sqft'', ''land_area_sqft'']"

text \<open>The body of the outer \<open>try\<close> of \<open>_score_edge_pair_worker\<close>. The argument is a tuple,
  given as the list of its components.\<close>

definition score_edge_body ::
  "'b np_env \<Rightarrow> payload \<Rightarrow> string list \<Rightarrow> exn + (string \<times> string \<times> pyfloat \<times> int \<times> int)" where
  "score_edge_body env pl pair =
     (case pair of
        [a, b] \<Rightarrow>
          (let mapping = mapping_of pl;
               idxs = union_list env (idx_of mapping a) (idx_of mapping b)
           in if length idxs = 0 then Inr (a, b, Fin 0, 0, 0)
              else
                bind_exn (case PARCELS_MIN_DF pl of
                            None \<Rightarrow> Inl AttributeError
                          | Some df \<Rightarrow> iloc df idxs) (\<lambda>sub.
                let n_sales = count_sales sub in
                if n_sales < 3 then Inr (a, b, Fin 0, int (length (df_rows sub)), n_sales)
                else if \<not> list_all (\<lambda>c. c \<in> set (df_columns sub)) required_cols
                then Inr (a, b, Fin 0, int (length (df_rows sub)), n_sales)
                else
                  bind_exn (astype_rows (df_rows sub)) (\<lambda>floats.
                  let df = dropna floats in
                  if length df < 3 then Inr (a, b, Fin 0, int (length (df_rows sub)), n_sales)
                  else
                    (let y = map (\<lambda>(v, b, l). v) df;
                         X = map (\<lambda>(v, b, l). [b, l]) df;
                         r2 = worker_r2 env y X
                     in Inr (a, b, r2, int (length df), n_sales)))))
      | _ \<Rightarrow> Inl ValueError)"

text \<open>\<open>_score_edge_pair_worker\<close>: on any exception the safe default, with the pair's
  identifiers when the pair can be unpacked and empty strings otherwise.\<close>

definition score_edge_pair_worker ::
  "'b np_env \<Rightarrow> payload \<Rightarrow> string list \<Rightarrow> string \<times> string \<times> pyfloat \<times> int \<times> int" where
  "score_edge_pair_worker env pl pair =
     (case score_edge_body env pl pair of
        Inr res \<Rightarrow> res
      | Inl e \<Rightarrow> (case pair of [a, b] \<Rightarrow> (a, b, Fin 0, 0, 0) | _ \<Rightarrow> ([], [], Fin 0, 0, 0)))"

text \<open>
  For the examples: a numpy with exact arithmetic on finite values. Its \<open>lstsq\<close> returns
  the coefficients \<open>[0, 1, 1]\<close>, the least-squares solution for data in which the target
  is the sum of the two regressors, and raises on an empty or ill-shaped problem.
\<close>

fun fin_val :: "pyfloat \<Rightarrow> real" where
  "fin_val (Fin x) = x"
| "fin_val _ = 0"

definition toy_env :: "real list np_env" where
  "toy_env =
     \<lparr>lstsq = (\<lambda>Xd y. if Xd = [] \<or> length Xd \<noteq> length y then Inl LinAlgError
                          else Inr [0, 1, 1]),
      ss_res = (\<lambda>Xd beta y.
         Fin (sum_list (map2 (\<lambda>row v.
                (fin_val v - sum_list (map2 (\<lambda>x c. fin_val x * c) row beta))\<^sup>2) Xd y))),
      ss_tot = (\<lambda>y.
         Fin (sum_list (map (\<lambda>v.
                (fin_val v - sum_list (map fin_val y) / real (length y))\<^sup>2) y))),
      fdiv = (\<lambda>p q. if isfinite p \<and> isfinite q \<and> fin_val q \<noteq> 0
                     then Fin (fin_val p / fin_val q) else NaN),
      fsub = (\<lambda>p q. if isfinite p \<and> isfinite q then Fin (fin_val p - fin_val q) else NaN),
      union_list = (\<lambda>s t. sorted_list_of_set (s \<union> t))\<rparr>"

definition example_y :: "pyfloat list" where
  "example_y = [Fin 3, Fin 3, Fin 6, Fin 4]"

definition example_X :: "pyfloat list list" where
  "example_X = [[Fin 1, Fin 2], [Fin 2, Fin 1], [Fin 3, Fin 3], [Fin 4, Fin 0]]"

text \<open>The score in the tuple the worker returns.\<close>

definition res_r2 :: "string \<times> string \<times> pyfloat \<times> int \<times> int \<Rightarrow> pyfloat" where
  "res_r2 res = (case res of (a, b, r, n, s) \<Rightarrow> r)"

text \<open>The indices gathered for a pair, \<open>idxs\<close> of the worker, and the target vector and
  design matrix the worker builds from the complete rows.\<close>

definition gathered :: "'b np_env \<Rightarrow> payload \<Rightarrow> string \<Rightarrow> string \<Rightarrow> int list" where
  "gathered env pl a b = union_list env (idx_of (mapping_of pl) a) (idx_of (mapping_of pl) b)"

definition fit_y :: "(pyfloat \<times> pyfloat \<times> pyfloat) list \<Rightarrow> pyfloat list" where
  "fit_y df = map (\<lambda>(v, b, l). v) df"

definition fit_X :: "(pyfloat \<times> pyfloat \<times> pyfloat) list \<Rightarrow> pyfloat list list" where
  "fit_X df = map (\<lambda>(v, b, l). [b, l]) df"

text \<open>
  For the examples: five parcels, four of them sold and complete with a value that is the
  sum of the two areas, the fifth without sale price and without value; tiles \<open>A\<close> and
  \<open>B\<close> share parcel 2, tile \<open>C\<close> has two parcels, tile \<open>E\<close> points to a row that does
  not exist.
\<close>

definition mk_row :: "cell \<Rightarrow> cell \<Rightarrow> cell \<Rightarrow> cell \<Rightarrow> string \<Rightarrow> cell" where
  "mk_row sale v b l c =
     (if c = ''adj_sale_price'' then sale
      else if c = ''market_value_proxy'' then v
      else if c = ''built_area_sqft'' then b
      else if c = ''land_area_sqft'' then l
      else CNone)"

definition example_parcels :: parcels_df where
  "example_parcels =
     \<lparr>df_columns = [''adj_sale_price'', ''market_value_proxy'', ''built_area_sqft'',
                     ''land_area_sqft''],
      df_rows =
        [mk_row (CNum (Fin 100)) (CNum (Fin 3)) (CNum (Fin 1)) (CNum (Fin 2)),
         mk_row (CNum (Fin 110)) (CNum (Fin 3)) (CNum (Fin 2)) (CNum (Fin 1)),
         mk_row (CNum (Fin 120)) (CNum (Fin 6)) (CNum (Fin 3)) (CNum (Fin 3)),
         mk_row (CNum (Fin 130)) (CNum (Fin 4)) (CNum (Fin 4)) (CNum (Fin 0)),
         mk_row CNone (CNum NaN) (CNum (Fin 5)) (CNum (Fin 5))]\<rparr>"

definition example_payload :: payload where
  "example_payload =
     \<lparr>PARCELS_MIN_DF = Some example_parcels,
      PARCEL_IDX_BY_TILE =
        Some [''A'' \<mapsto> {0, 1, 2}, ''B'' \<mapsto> {2, 3, 4}, ''C'' \<mapsto> {0, 1}, ''E'' \<mapsto> {9}]\<rparr>"

section \<open>Properties\<close>

subsection \<open>Python equality is an equivalence on JSON values\<close>

lemma py_eq_PDict_iff:
  "py_eq (PDict d) (PDict e) \<longleftrightarrow>
     set (map fst d) = set (map fst e) \<and>
     (\<forall>k \<in> set (map fst d). \<exists>v v'. map_of d k = Some v \<and> map_of e k = Some v' \<and> py_eq v v')"
  apply (simp only: py_eq.simps pyval.case)
  apply (intro conj_cong refl ball_cong)
  apply (auto split: option.splits)
  done

lemma py_eq_sym: "py_eq v w \<Longrightarrow> py_eq w v"
proof (induction v w rule: py_eq.induct)
  case (5 xs w)
  then show ?case
    by (cases w; simp) (simp add: list_all2_conv_all_nth)
next
  case (6 d w)
  show ?case
  proof (cases w)
    case (PDict e)
    from 6(2) have keys: "set (map fst d) = set (map fst e)"
      and vals: "\<forall>k \<in> set (map fst d). \<exists>v v'. map_of d k = Some v \<and> map_of e k = Some v' \<and> py_eq v v'"
      unfolding PDict py_eq_PDict_iff by blast+
    have "\<exists>v' v. map_of e k = Some v' \<and> map_of d k = Some v \<and> py_eq v' v" if "k \<in> set (map fst e)" for k
    proof -
      from that keys have kd: "k \<in> set (map fst d)" by simp
      with vals obtain v v' where a: "map_of d k = Some v" "map_of e k = Some v'" "py_eq v v'" by blast
      from 6(1)[OF PDict kd a(1) a(2)] a(3) have "py_eq v' v" by simp
      with a show ?thesis by blast
    qed
    then show ?thesis unfolding PDict py_eq_PDict_iff using keys by blast
  qed (use 6 in auto)
qed (auto split: pyval.splits)

lemma py_eq_trans: "py_eq u v \<Longrightarrow> py_eq v w \<Longrightarrow> py_eq u w"
proof (induction u v arbitrary: w rule: py_eq.induct)
  case (5 xs v)
  show ?case
  proof (cases v)
    case v: (PList ys)
    show ?thesis
    proof (cases w)
      case w: (PList zs)
      from 5(2) have xy: "list_all2 py_eq xs ys" by (simp add: v)
      from 5(3) have yz: "list_all2 py_eq ys zs" by (simp add: v w)
      have "list_all2 py_eq xs zs"
        unfolding list_all2_conv_all_nth
      proof (intro conjI allI impI)
        show "length xs = length zs"
          using xy yz by (simp add: list_all2_lengthD)
        fix i assume i: "i < length xs"
        have a: "py_eq (xs ! i) (ys ! i)" using xy i by (simp add: list_all2_conv_all_nth)
        have b: "py_eq (ys ! i) (zs ! i)" using xy yz i by (simp add: list_all2_conv_all_nth)
        have "xs ! i \<in> set xs" "ys ! i \<in> set ys" using i xy by (auto simp: list_all2_lengthD)
        from 5(1)[OF v this a b] show "py_eq (xs ! i) (zs ! i)" .
      qed
      then show ?thesis by (simp add: w)
    qed (use 5 v in auto)
  qed (use 5 in auto)
next
  case (6 d v)
  show ?case
  proof (cases v)
    case v: (PDict e)
    show ?thesis
    proof (cases w)
      case w: (PDict f)
      from 6(2) have k1: "set (map fst d) = set (map fst e)"
        and v1: "\<forall>k \<in> set (map fst d). \<exists>x y. map_of d k = Some x \<and> map_of e k = Some y \<and> py_eq x y"
        unfolding v py_eq_PDict_iff by blast+
      from 6(3) have k2: "set (map fst e) = set (map fst f)"
        and v2: "\<forall>k \<in> set (map fst e). \<exists>x y. map_of e k = Some x \<and> map_of f k = Some y \<and> py_eq x y"
        unfolding v w py_eq_PDict_iff by blast+
      have "\<exists>x z. map_of d k = Some x \<and> map_of f k = Some z \<and> py_eq x z"
        if kd: "k \<in> set (map fst d)" for k
      proof -
        from v1 kd obtain x y where a: "map_of d k = Some x" "map_of e k = Some y" "py_eq x y"
          by blast
        from kd k1 v2 a(2) obtain z where b: "map_of f k = Some z" "py_eq y z"
          by fastforce
        from 6(1)[OF v kd a(1) a(2) a(3) b(2)] a(1) b(1) show ?thesis by blast
      qed
      then show ?thesis unfolding w py_eq_PDict_iff using k1 k2 by simp
    qed (use 6 v in auto)
  qed (use 6 in auto)
qed (auto split: pyval.splits if_splits)

lemma py_eq_refl: "py_eq v v"
proof (induction v)
  case (PList xs)
  then show ?case by (simp add: list_all2_conv_all_nth)
next
  case (PDict d)
  have "\<exists>x y. map_of d k = Some x \<and> map_of d k = Some y \<and> py_eq x y" if "k \<in> set (map fst d)" for k
  proof -
    from that obtain x where x: "map_of d k = Some x"
      by (metis map_of_eq_None_iff not_Some_eq set_map)
    then have "(k, x) \<in> set d" by (rule map_of_SomeD)
    from PDict[OF this] have "py_eq x x" by simp
    with x show ?thesis by blast
  qed
  then show ?case unfolding py_eq_PDict_iff by blast
qed auto

subsection \<open>cache_valid\<close>

lemma cmp_top_eq:
  "cmp_top c m k =
     (if is_dict c \<and> is_dict m then Inr (py_eq (field c k) (field m k)) else Inl AttributeError)"
  by (cases c; cases m) (simp_all add: cmp_top_def bind_exn_def py_get_def is_dict_def field_def)

lemma py_get_eq:
  "py_get v k PNone = (if is_dict v then Inr (field v k) else Inl AttributeError)"
  "py_get v k (PDict []) = (if is_dict v then Inr (ident v k) else Inl AttributeError)"
  by (cases v; simp add: py_get_def is_dict_def field_def ident_def)+

lemma cmp_sub_eq:
  "cmp_sub c m k f =
     (if is_dict c \<and> is_dict (ident c k) \<and> is_dict m \<and> is_dict (ident m k)
      then Inr (py_eq (field (ident c k) f) (field (ident m k) f)) else Inl AttributeError)"
  by (simp add: cmp_sub_def py_get_eq bind_exn_def)

lemma cache_valid_iff:
  "cache_valid c m \<longleftrightarrow> well_shaped c \<and> well_shaped m \<and> fields_agree c m"
  unfolding cache_valid_def cache_valid_body_def cmp_top_eq cmp_sub_eq py_and_def
    well_shaped_def fields_agree_def
  by (auto split: if_splits)

lemma cache_valid_sym: "cache_valid c m = cache_valid m c"
  unfolding cache_valid_iff fields_agree_def by (auto dest: py_eq_sym)

lemma is_dict_with_item [simp]: "is_dict (with_item v k x) = is_dict v"
  by (cases v) (simp_all add: is_dict_def with_item_def)

lemma field_with_item:
  "field (with_item v k x) k' = (if is_dict v \<and> k' = k then x else field v k')"
  by (cases v) (simp_all add: is_dict_def with_item_def field_def)

lemma ident_with_item:
  "ident (with_item v k x) k' = (if is_dict v \<and> k' = k then x else ident v k')"
  by (cases v) (simp_all add: is_dict_def with_item_def ident_def)

lemma not_dict_field: "\<not> is_dict v \<Longrightarrow> field v k = PNone"
  by (cases v) (simp_all add: is_dict_def field_def)

lemma path_excluded:
  assumes "k = ''parcels'' \<or> k = ''tiles''"
  shows "cache_valid c (with_sub m k ''path'' p) = cache_valid c m"
  using assms unfolding cache_valid_iff fields_agree_def well_shaped_def with_sub_def
  by (auto simp: field_with_item ident_with_item not_dict_field)

lemma top_field_flips:
  assumes "cache_valid c m" and "t = ''algo_version'' \<or> t = ''params'' \<or> t = ''tiles_sig''"
    and "\<not> py_eq (field m t) v"
  shows "\<not> cache_valid c (with_item m t v)"
proof
  assume a: "cache_valid c (with_item m t v)"
  from assms(1) have d: "is_dict m" by (simp add: cache_valid_iff well_shaped_def)
  from assms(1,2) have 1: "py_eq (field c t) (field m t)"
    unfolding cache_valid_iff fields_agree_def by auto
  from a assms(2) d have 2: "py_eq (field c t) v"
    unfolding cache_valid_iff fields_agree_def by (auto simp: field_with_item)
  from py_eq_trans[OF py_eq_sym[OF 1] 2] assms(3) show False by simp
qed

lemma sub_field_flips:
  assumes "cache_valid c m" and "k = ''parcels'' \<or> k = ''tiles''"
    and "f = ''mtime'' \<or> f = ''size''"
    and "\<not> py_eq (field (ident m k) f) v"
  shows "\<not> cache_valid c (with_sub m k f v)"
proof
  assume a: "cache_valid c (with_sub m k f v)"
  from assms(1,2) have d: "is_dict m" "is_dict (ident m k)"
    by (auto simp: cache_valid_iff well_shaped_def)
  from assms(1,2,3) have 1: "py_eq (field (ident c k) f) (field (ident m k) f)"
    unfolding cache_valid_iff fields_agree_def by auto
  from a assms(2,3) d have 2: "py_eq (field (ident c k) f) v"
    unfolding cache_valid_iff fields_agree_def with_sub_def
    by (auto simp: field_with_item ident_with_item)
  from py_eq_trans[OF py_eq_sym[OF 1] 2] assms(4) show False by simp
qed

lemma exception_gives_False: "cache_valid_body c m = Inl e \<Longrightarrow> \<not> cache_valid c m"
  by (simp add: cache_valid_def)

text \<open>
  Claim C1. \<open>cache_valid(cached_meta, current_meta)\<close> is true exactly when both fingerprints
  are dictionaries with dictionary file identities (so that no lookup raises) and the
  algorithm version, the parameter set, the tile-set signature and the size and modification
  time of the parcels and of the tiles file are equal in Python's sense. An exception inside
  the comparison gives false. The path of a file identity is not compared: replacing it in
  either fingerprint leaves the result as it is. Starting from a valid pair, replacing one
  compared field of either fingerprint by a value that is not equal to the old one makes the
  result false.
\<close>

theorem cache_valid_spec:
  "(cache_valid c m \<longleftrightarrow> well_shaped c \<and> well_shaped m \<and> fields_agree c m) \<and>
   (\<forall>e. cache_valid_body c m = Inl e \<longrightarrow> \<not> cache_valid c m) \<and>
   (k \<in> {''parcels'', ''tiles''} \<longrightarrow>
      cache_valid c (with_sub m k ''path'' p) = cache_valid c m \<and>
      cache_valid (with_sub c k ''path'' p) m = cache_valid c m) \<and>
   (cache_valid c m \<and> t \<in> {''algo_version'', ''params'', ''tiles_sig''} \<longrightarrow>
      (\<not> py_eq (field m t) v \<longrightarrow> \<not> cache_valid c (with_item m t v)) \<and>
      (\<not> py_eq (field c t) v \<longrightarrow> \<not> cache_valid (with_item c t v) m)) \<and>
   (cache_valid c m \<and> s \<in> {''parcels'', ''tiles''} \<and> f \<in> {''mtime'', ''size''} \<longrightarrow>
      (\<not> py_eq (field (ident m s) f) w \<longrightarrow> \<not> cache_valid c (with_sub m s f w)) \<and>
      (\<not> py_eq (field (ident c s) f) w \<longrightarrow> \<not> cache_valid (with_sub c s f w) m))"
proof (intro conjI)
  show "cache_valid c m \<longleftrightarrow> well_shaped c \<and> well_shaped m \<and> fields_agree c m"
    by (rule cache_valid_iff)
  show "\<forall>e. cache_valid_body c m = Inl e \<longrightarrow> \<not> cache_valid c m"
    by (simp add: exception_gives_False)
  show "k \<in> {''parcels'', ''tiles''} \<longrightarrow>
      cache_valid c (with_sub m k ''path'' p) = cache_valid c m \<and>
      cache_valid (with_sub c k ''path'' p) m = cache_valid c m"
    using path_excluded[of k c m p] path_excluded[of k m c p]
    by (simp add: cache_valid_sym[of _ m])
  show "cache_valid c m \<and> t \<in> {''algo_version'', ''params'', ''tiles_sig''} \<longrightarrow>
      (\<not> py_eq (field m t) v \<longrightarrow> \<not> cache_valid c (with_item m t v)) \<and>
      (\<not> py_eq (field c t) v \<longrightarrow> \<not> cache_valid (with_item c t v) m)"
    using top_field_flips[of c m t v] top_field_flips[of m c t v]
    by (simp add: cache_valid_sym[of _ m])
  show "cache_valid c m \<and> s \<in> {''parcels'', ''tiles''} \<and> f \<in> {''mtime'', ''size''} \<longrightarrow>
      (\<not> py_eq (field (ident m s) f) w \<longrightarrow> \<not> cache_valid c (with_sub m s f w)) \<and>
      (\<not> py_eq (field (ident c s) f) w \<longrightarrow> \<not> cache_valid (with_sub c s f w) m)"
    using sub_field_flips[of c m s f w] sub_field_flips[of m c s f w]
    by (simp add: cache_valid_sym[of _ m])
qed

text \<open>
  The theorem at a fingerprint built by \<open>make_cache_key\<close>: it validates against itself and
  against a copy with a relocated parcels file; a modification time shifted by one second, or
  \<open>buffer_feet\<close> changed from 50.0 to 50.0001, gives false, and so does a cached value
  \<open>None\<close>, on which \<open>.get\<close> raises.
\<close>

theorem cache_valid_spec_witness:
  "cache_valid example_meta example_meta \<and>
   cache_valid example_meta (with_sub example_meta ''parcels'' ''path'' (PStr ''/moved/parcels.gpkg'')) \<and>
   \<not> cache_valid example_meta (with_sub example_meta ''parcels'' ''mtime'' (PNum 1700000001)) \<and>
   \<not> cache_valid example_meta
       (with_item example_meta ''params''
          (PDict [(''buffer_feet'', PNum (500001 / 10000)), (''crs_epsg_feet'', PNum 2272),
                  (''k_neighbors'', PNum 8)])) \<and>
   \<not> cache_valid PNone example_meta"
proof -
  let ?m = example_meta
  let ?prm = "PDict [(''buffer_feet'', PNum (500001 / 10000)), (''crs_epsg_feet'', PNum 2272),
                  (''k_neighbors'', PNum 8)]"
  note T = cache_valid_spec[of ?m ?m "''parcels''" "PStr ''/moved/parcels.gpkg''"
        "''params''" ?prm "''parcels''" "''mtime''" "PNum 1700000001"]
  have wf: "well_shaped ?m"
    by (simp add: well_shaped_def is_dict_def ident_def example_meta_def make_cache_key_def
        file_fingerprint_def example_stat_def)
  have ag: "fields_agree ?m ?m"
    by (simp add: fields_agree_def py_eq_refl)
  from T wf ag have v: "cache_valid ?m ?m" by blast
  have 1: "\<not> py_eq (field (ident ?m ''parcels'') ''mtime'') (PNum 1700000001)"
    by (simp add: field_def ident_def example_meta_def make_cache_key_def
        file_fingerprint_def example_stat_def)
  have 2: "\<not> py_eq (field ?m ''params'') ?prm"
    by (simp add: field_def example_meta_def make_cache_key_def)
  have 3: "cache_valid_body PNone ?m = Inl AttributeError"
    by (simp add: cache_valid_body_def cmp_top_def py_get_def bind_exn_def py_and_def)
  from T v have a: "cache_valid ?m (with_sub ?m ''parcels'' ''path'' (PStr ''/moved/parcels.gpkg''))"
    by simp
  from T v 1 have b: "\<not> cache_valid ?m (with_sub ?m ''parcels'' ''mtime'' (PNum 1700000001))"
    by simp
  from T v 2 have c: "\<not> cache_valid ?m (with_item ?m ''params'' ?prm)"
    by simp
  from cache_valid_spec[of PNone ?m] 3 have d: "\<not> cache_valid PNone ?m"
    by blast
  from v a b c d show ?thesis by blast
qed

subsection \<open>Degraded fingerprints\<close>

lemma py_eq_PNone_right: "py_eq x PNone \<Longrightarrow> x = PNone"
  by (cases x) simp_all

lemma current_parts:
  "ident (make_cache_key stat sha pp tp bf crs k tiles) ''parcels'' = file_fingerprint stat pp"
  "ident (make_cache_key stat sha pp tp bf crs k tiles) ''tiles'' = file_fingerprint stat tp"
  "field (make_cache_key stat sha pp tp bf crs k tiles) ''tiles_sig'' = tiles_signature sha tiles"
  by (simp_all add: make_cache_key_def ident_def field_def)

lemma degraded_file_fields:
  "stat p = None \<Longrightarrow> field (file_fingerprint stat p) ''size'' = PNone"
  "stat p = None \<Longrightarrow> field (file_fingerprint stat p) ''mtime'' = PNone"
  by (simp_all add: file_fingerprint_def field_def)

lemma null_sig:
  "tile_key_col tiles = None \<Longrightarrow> key_col tiles = None \<Longrightarrow>
   tiles_signature sha tiles = PDict [(''n_tiles'', PNone), (''keys_hash'', PNone)]"
  by (simp add: tiles_signature_def)

lemma py_eq_null_sig:
  assumes "py_eq x (PDict [(''n_tiles'', PNone), (''keys_hash'', PNone)])"
  shows "field x ''n_tiles'' = PNone \<and> field x ''keys_hash'' = PNone"
proof (cases x)
  case (PDict d)
  let ?e = "[(''n_tiles'', PNone), (''keys_hash'', PNone)]"
  from assms have keys: "set (map fst d) = set (map fst ?e)"
    and vals: "\<forall>k \<in> set (map fst d). \<exists>v v'. map_of d k = Some v \<and>
        map_of ?e k = Some v' \<and> py_eq v v'"
    unfolding PDict py_eq_PDict_iff by blast+
  have k1: "''n_tiles'' \<in> set (map fst d)" and k2: "''keys_hash'' \<in> set (map fst d)"
    unfolding keys by simp_all
  from vals k1 obtain v w where 1: "map_of d ''n_tiles'' = Some v" "map_of ?e ''n_tiles'' = Some w" "py_eq v w"
    by blast
  from vals k2 obtain v' w' where 2: "map_of d ''keys_hash'' = Some v'" "map_of ?e ''keys_hash'' = Some w'" "py_eq v' w'"
    by blast
  from 1(2) have "w = PNone" by simp
  with 1(3) have "v = PNone" by (simp add: py_eq_PNone_right)
  moreover from 2(2) have "w' = PNone" by simp
  with 2(3) have "v' = PNone" by (simp add: py_eq_PNone_right)
  ultimately show ?thesis using 1(1) 2(1) by (simp add: PDict field_def)
next
  case PNone with assms show ?thesis by simp
next
  case (PBool b) with assms show ?thesis by simp
next
  case (PNum r) with assms show ?thesis by simp
next
  case (PStr s) with assms show ?thesis by simp
next
  case (PList xs) with assms show ?thesis by simp
qed

text \<open>
  Claim C2, as amended. Let the current fingerprint come from \<open>make_cache_key\<close>. If its
  parcels file (or its tiles file) could not be stat'ed, \<open>cache_valid\<close> is false against every
  cached fingerprint that records a non-null size or a non-null modification time for that
  file; if the tile table has no identifier column, it is false against every cached
  fingerprint whose tile-set signature has a non-null count or a non-null hash.
\<close>

theorem degraded_fingerprint_misses:
  assumes cur: "current = make_cache_key stat sha pp tp bf crs k tiles"
  shows
  "(stat pp = None \<and>
      (field (ident cached ''parcels'') ''size'' \<noteq> PNone \<or>
       field (ident cached ''parcels'') ''mtime'' \<noteq> PNone)
      \<longrightarrow> \<not> cache_valid cached current) \<and>
   (stat tp = None \<and>
      (field (ident cached ''tiles'') ''size'' \<noteq> PNone \<or>
       field (ident cached ''tiles'') ''mtime'' \<noteq> PNone)
      \<longrightarrow> \<not> cache_valid cached current) \<and>
   (tile_key_col tiles = None \<and> key_col tiles = None \<and>
      (field (field cached ''tiles_sig'') ''n_tiles'' \<noteq> PNone \<or>
       field (field cached ''tiles_sig'') ''keys_hash'' \<noteq> PNone)
      \<longrightarrow> \<not> cache_valid cached current)"
proof (intro conjI impI notI)
  assume a: "stat pp = None \<and>
      (field (ident cached ''parcels'') ''size'' \<noteq> PNone \<or>
       field (ident cached ''parcels'') ''mtime'' \<noteq> PNone)"
    and v: "cache_valid cached current"
  from v have "py_eq (field (ident cached ''parcels'') ''size'') PNone"
    "py_eq (field (ident cached ''parcels'') ''mtime'') PNone"
    using a by (simp_all add: cache_valid_iff fields_agree_def cur current_parts degraded_file_fields)
  with a show False by (auto dest: py_eq_PNone_right)
next
  assume a: "stat tp = None \<and>
      (field (ident cached ''tiles'') ''size'' \<noteq> PNone \<or>
       field (ident cached ''tiles'') ''mtime'' \<noteq> PNone)"
    and v: "cache_valid cached current"
  from v have "py_eq (field (ident cached ''tiles'') ''size'') PNone"
    "py_eq (field (ident cached ''tiles'') ''mtime'') PNone"
    using a by (simp_all add: cache_valid_iff fields_agree_def cur current_parts degraded_file_fields)
  with a show False by (auto dest: py_eq_PNone_right)
next
  assume a: "tile_key_col tiles = None \<and> key_col tiles = None \<and>
      (field (field cached ''tiles_sig'') ''n_tiles'' \<noteq> PNone \<or>
       field (field cached ''tiles_sig'') ''keys_hash'' \<noteq> PNone)"
    and v: "cache_valid cached current"
  from v a have "py_eq (field cached ''tiles_sig'') (PDict [(''n_tiles'', PNone), (''keys_hash'', PNone)])"
    by (simp add: cache_valid_iff fields_agree_def cur current_parts null_sig)
  from py_eq_null_sig[OF this] a show False by simp
qed

text \<open>
  Claim C2 as stated fails: the fingerprint of an unstat'able file has null size and
  modification time, the signature without identifier column has null count and hash, and
  such a fingerprint validates against a cached copy of itself, since \<open>None == None\<close>.
\<close>

theorem degraded_fingerprint_hits:
  "file_fingerprint no_stat ''parcels.gpkg'' =
      PDict [(''path'', PStr ''parcels.gpkg''), (''size'', PNone), (''mtime'', PNone)] \<and>
   tiles_signature example_sha no_id_tiles = PDict [(''n_tiles'', PNone), (''keys_hash'', PNone)] \<and>
   cache_valid degraded_meta degraded_meta"
proof -
  have "well_shaped degraded_meta"
    by (simp add: well_shaped_def is_dict_def ident_def degraded_meta_def make_cache_key_def
        file_fingerprint_def no_stat_def)
  moreover have "fields_agree degraded_meta degraded_meta"
    by (simp add: fields_agree_def py_eq_refl)
  ultimately show ?thesis
    by (simp add: cache_valid_iff file_fingerprint_def no_stat_def tiles_signature_def no_id_tiles_def)
qed

text \<open>The amended claim at a healthy cached fingerprint and the degraded current one.\<close>

theorem degraded_fingerprint_misses_witness:
  "\<not> cache_valid example_meta degraded_meta"
proof -
  have 1: "no_stat ''parcels.gpkg'' = None" by (simp add: no_stat_def)
  have 2: "field (ident example_meta ''parcels'') ''size'' \<noteq> PNone"
    by (simp add: field_def ident_def example_meta_def make_cache_key_def
        file_fingerprint_def example_stat_def)
  from degraded_fingerprint_misses[OF degraded_meta_def, of example_meta] 1 2
  show ?thesis by blast
qed

subsection \<open>df_to_adjacency\<close>

lemma nbrs_setdefault_add:
  "nbrs (setdefault_add adj k x) a = (if a = k then insert x (nbrs adj a) else nbrs adj a)"
  by (simp add: nbrs_def setdefault_add_def)

lemma nbrs_adjacency_loop:
  "nbrs (adjacency_loop rows adj) a = nbrs adj a \<union> {b. (a, b) \<in> set rows \<or> (b, a) \<in> set rows}"
proof (induction rows arbitrary: adj)
  case Nil
  then show ?case by simp
next
  case (Cons row rows)
  obtain x y where row: "row = (x, y)" by (cases row)
  show ?case unfolding row by (auto simp: Cons.IH nbrs_setdefault_add)
qed

lemma nbrs_df_to_adjacency:
  "nbrs (df_to_adjacency (Some rows)) a = {b. (a, b) \<in> set rows \<or> (b, a) \<in> set rows}"
  by (cases rows) (simp_all add: df_to_adjacency_def nbrs_adjacency_loop, simp_all add: nbrs_def)

text \<open>
  Claim C9, as amended. For every row sequence the graph built by \<open>df_to_adjacency\<close> is
  symmetric, and empty or null input gives the empty graph. When no row has the same tile
  in both columns, which is how \<open>save_cache\<close> writes the rows, no tile is in its own
  neighbour set.
\<close>

theorem df_to_adjacency_symmetric:
  "(\<forall>A B. A \<in> nbrs (df_to_adjacency df) B \<longleftrightarrow> B \<in> nbrs (df_to_adjacency df) A) \<and>
   df_to_adjacency None = Map.empty \<and> df_to_adjacency (Some []) = Map.empty \<and>
   ((\<forall>(a, b) \<in> set rows. a \<noteq> b) \<longrightarrow> (\<forall>A. A \<notin> nbrs (df_to_adjacency (Some rows)) A))"
proof (intro conjI)
  show "\<forall>A B. A \<in> nbrs (df_to_adjacency df) B \<longleftrightarrow> B \<in> nbrs (df_to_adjacency df) A"
  proof (cases df)
    case None
    then show ?thesis by (simp add: df_to_adjacency_def nbrs_def)
  next
    case (Some rs)
    show ?thesis unfolding Some nbrs_df_to_adjacency by blast
  qed
  show "df_to_adjacency None = Map.empty" by (simp add: df_to_adjacency_def)
  show "df_to_adjacency (Some []) = Map.empty" by (simp add: df_to_adjacency_def)
  show "(\<forall>(a, b) \<in> set rows. a \<noteq> b) \<longrightarrow> (\<forall>A. A \<notin> nbrs (df_to_adjacency (Some rows)) A)"
    unfolding nbrs_df_to_adjacency by blast
qed

text \<open>Claim C9 as stated fails on a row with the same tile in both columns: the tile becomes
  its own neighbour.\<close>

theorem df_to_adjacency_self_loop:
  "''x'' \<in> nbrs (df_to_adjacency (Some [(''x'', ''x'')])) ''x''"
  by (simp add: nbrs_df_to_adjacency)

text \<open>The amended claim on two rows with distinct endpoints.\<close>

theorem df_to_adjacency_symmetric_witness:
  "list_all (\<lambda>(a, b). a \<noteq> b) [(''a'', ''b''), (''b'', ''c'')] \<and>
   ''b'' \<in> nbrs (df_to_adjacency (Some [(''a'', ''b''), (''b'', ''c'')])) ''a'' \<and>
   ''a'' \<in> nbrs (df_to_adjacency (Some [(''a'', ''b''), (''b'', ''c'')])) ''b'' \<and>
   ''b'' \<notin> nbrs (df_to_adjacency (Some [(''a'', ''b''), (''b'', ''c'')])) ''b''"
proof -
  let ?rows = "[(''a'', ''b''), (''b'', ''c'')]"
  note T = df_to_adjacency_symmetric[of "Some ?rows" ?rows]
  have h: "\<forall>(a, b) \<in> set ?rows. a \<noteq> b" by simp
  have 1: "''b'' \<in> nbrs (df_to_adjacency (Some ?rows)) ''a''"
    by (simp add: df_to_adjacency_def nbrs_def setdefault_add_def)
  from T 1 have 2: "''a'' \<in> nbrs (df_to_adjacency (Some ?rows)) ''b''" by blast
  from T h have 3: "''b'' \<notin> nbrs (df_to_adjacency (Some ?rows)) ''b''" by blast
  have "list_all (\<lambda>(a, b). a \<noteq> b) ?rows" by simp
  with 1 2 3 show ?thesis by (intro conjI)
qed

subsection \<open>load_cache\<close>

lemma read_file_cases:
  "read_file f = (if is_broken f then Inl (case f of Broken e \<Rightarrow> e) else Inr (file_content f))"
  by (cases f) (simp_all add: read_file_def is_broken_def file_content_def)

lemma null_fingerprint_invalid: "\<not> cache_valid PNone current"
  by (simp add: cache_valid_def cache_valid_body_def cmp_top_def py_get_def bind_exn_def
      py_and_def)

text \<open>
  Claim C8, as amended. When the cache directory exists or can be created, \<open>load_cache\<close>
  returns without raising. If reading any of the three files raises (corrupt file, no
  permission), the result is \<open>(None, None, None)\<close>. Otherwise each entry is what its file
  holds, \<open>None\<close> for a file that does not exist and only for that one; the fingerprint is
  also \<open>None\<close> when the metadata file holds \<open>null\<close>. A null fingerprint means no usable
  cache: \<open>cache_valid\<close> is false for it against every current fingerprint.
\<close>

theorem load_cache_spec:
  "mkdir_ok fs \<longrightarrow>
     (is_broken (meta_file fs) \<or> is_broken (adj_file fs) \<or> is_broken (scores_file fs)
        \<longrightarrow> load_cache fs = Inr (None, None, None)) \<and>
     (\<not> is_broken (meta_file fs) \<and> \<not> is_broken (adj_file fs) \<and> \<not> is_broken (scores_file fs)
        \<longrightarrow> load_cache fs =
              Inr (meta_content (meta_file fs), file_content (adj_file fs),
                   file_content (scores_file fs))) \<and>
     (load_cache fs = Inr (meta, df_adj, df_scores) \<and> meta = None
        \<longrightarrow> \<not> cache_valid (py_of_optional meta) current)"
proof (intro impI conjI)
  assume "mkdir_ok fs"
    and "is_broken (meta_file fs) \<or> is_broken (adj_file fs) \<or> is_broken (scores_file fs)"
  then show "load_cache fs = Inr (None, None, None)"
    by (auto simp: load_cache_def cache_paths_def bind_exn_def read_file_cases)
next
  assume "mkdir_ok fs"
    and "\<not> is_broken (meta_file fs) \<and> \<not> is_broken (adj_file fs) \<and>
         \<not> is_broken (scores_file fs)"
  then show "load_cache fs =
      Inr (meta_content (meta_file fs), file_content (adj_file fs), file_content (scores_file fs))"
    by (simp add: load_cache_def cache_paths_def bind_exn_def read_file_cases meta_content_def)
next
  assume "load_cache fs = Inr (meta, df_adj, df_scores) \<and> meta = None"
  then have "py_of_optional meta = PNone" by (simp add: py_of_optional_def)
  then show "\<not> cache_valid (py_of_optional meta) current"
    by (simp add: null_fingerprint_invalid)
qed

text \<open>
  Claim C8 as stated fails twice. With the adjacency file missing and the other two files
  present, the fingerprint and the score rows are returned and only the adjacency entry is
  \<open>None\<close>. When the directory cannot be created, \<open>cache_paths\<close>, which is called before the
  \<open>try\<close>, raises and so does \<open>load_cache\<close>.
\<close>

theorem load_cache_not_all_null:
  "load_cache dir_without_adj = Inr (Some example_meta, None, Some []) \<and>
   load_cache dir_not_creatable = Inl OSError"
  by (simp add: load_cache_def cache_paths_def bind_exn_def read_file_def py_optional_def
      dir_without_adj_def dir_not_creatable_def example_meta_def make_cache_key_def)

text \<open>The amended claim on a directory whose score file is corrupt, on the one whose
  adjacency file is missing, and on one whose metadata file holds \<open>null\<close>: its fingerprint is
  \<open>None\<close> and does not validate.\<close>

theorem load_cache_spec_witness:
  "mkdir_ok dir_corrupt_scores \<and> is_broken (scores_file dir_corrupt_scores) \<and>
   load_cache dir_corrupt_scores = Inr (None, None, None) \<and>
   mkdir_ok dir_without_adj \<and> load_cache dir_without_adj = Inr (Some example_meta, None, Some []) \<and>
   mkdir_ok dir_null_meta \<and> load_cache dir_null_meta = Inr (None, Some [], Some []) \<and>
   \<not> cache_valid (py_of_optional None) example_meta"
proof -
  have 1: "mkdir_ok dir_corrupt_scores" "is_broken (scores_file dir_corrupt_scores)"
    by (simp_all add: dir_corrupt_scores_def is_broken_def)
  have 2: "mkdir_ok dir_without_adj" "\<not> is_broken (meta_file dir_without_adj)"
    "\<not> is_broken (adj_file dir_without_adj)" "\<not> is_broken (scores_file dir_without_adj)"
    by (simp_all add: dir_without_adj_def is_broken_def)
  have 3: "meta_content (meta_file dir_without_adj) = Some example_meta"
    "file_content (adj_file dir_without_adj) = None"
    "file_content (scores_file dir_without_adj) = Some []"
    by (simp_all add: dir_without_adj_def file_content_def meta_content_def py_optional_def
        example_meta_def make_cache_key_def)
  have 4: "mkdir_ok dir_null_meta" "\<not> is_broken (meta_file dir_null_meta)"
    "\<not> is_broken (adj_file dir_null_meta)" "\<not> is_broken (scores_file dir_null_meta)"
    by (simp_all add: dir_null_meta_def is_broken_def)
  have 5: "meta_content (meta_file dir_null_meta) = None"
    "file_content (adj_file dir_null_meta) = Some []"
    "file_content (scores_file dir_null_meta) = Some []"
    by (simp_all add: dir_null_meta_def file_content_def meta_content_def py_optional_def)
  from load_cache_spec[of dir_corrupt_scores] 1
  have a: "load_cache dir_corrupt_scores = Inr (None, None, None)" by blast
  from load_cache_spec[of dir_without_adj] 2 3
  have b: "load_cache dir_without_adj = Inr (Some example_meta, None, Some [])" by simp
  from load_cache_spec[of dir_null_meta] 4 5
  have c: "load_cache dir_null_meta = Inr (None, Some [], Some [])" by simp
  from load_cache_spec[of dir_null_meta None "Some []" "Some []" example_meta] 4 c
  have d: "\<not> cache_valid (py_of_optional None) example_meta" by simp
  show ?thesis
    apply (intro conjI)
           apply (rule 1(1))
          apply (rule 1(2))
         apply (rule a)
        apply (rule 2(1))
       apply (rule b)
      apply (rule 4(1))
     apply (rule c)
    apply (rule d)
    done
qed

subsection \<open>Round trip through the cache files\<close>

lemma set_adj_rows_of:
  "set (adj_rows_of a nbs rows) = set rows \<union> {(a, b) | b. b \<in> set nbs \<and> a < b}"
  by (induction nbs arbitrary: rows) auto

lemma set_adj_rows_loop:
  "set (adj_rows_loop adjacency rows) =
     set rows \<union> {(a, b). (a, b) \<in> adj_rel adjacency \<and> a < b}"
proof (induction adjacency arbitrary: rows)
  case Nil
  then show ?case by (simp add: adj_rel_def)
next
  case (Cons item rest)
  obtain a nbs where item: "item = (a, nbs)" by (cases item)
  show ?case unfolding item
    by (auto simp: Cons.IH set_adj_rows_of adj_rel_def)
qed

lemma adjacency_round_trip:
  assumes "sym (adj_rel adjacency)" and "irrefl (adj_rel adjacency)"
  shows "b \<in> nbrs (df_to_adjacency (Some (adj_rows_loop adjacency []))) a
           \<longleftrightarrow> (a, b) \<in> adj_rel adjacency"
proof -
  have ne: "a \<noteq> b" if "(a, b) \<in> adj_rel adjacency"
    using that assms(2) by (auto simp: irrefl_def)
  have sw: "(b, a) \<in> adj_rel adjacency \<longleftrightarrow> (a, b) \<in> adj_rel adjacency"
    using assms(1) by (auto dest: symD)
  show ?thesis
    unfolding nbrs_df_to_adjacency set_adj_rows_loop
    using ne sw by (auto simp: neq_iff)
qed

lemma score_rows_loop_eq:
  "score_rows_loop tab rows = rows @ concat (map rows_of_item tab)"
proof (induction tab arbitrary: rows)
  case Nil
  then show ?case by simp
next
  case (Cons item tab)
  obtain k es where item: "item = (k, es)" by (cases item)
  show ?case unfolding item
    by (simp add: Cons.IH rows_of_item_def split: list.splits prod.splits)
qed

lemma edge_scores_loop_eq:
  "edge_scores_loop rows out = out ++ map_of (rev (map row_kv (filter row_kept rows)))"
proof (induction rows arbitrary: out)
  case Nil
  then show ?case by simp
next
  case (Cons row rows)
  show ?case
  proof (cases "row_kept row")
    case True
    then have "edge_scores_loop (row # rows) out =
        edge_scores_loop rows (out(fst (row_kv row) \<mapsto> snd (row_kv row)))"
      by (simp add: row_kept_def row_kv_def Let_def)
    also have "\<dots> = out(fst (row_kv row) \<mapsto> snd (row_kv row)) ++
        map_of (rev (map row_kv (filter row_kept rows)))"
      by (rule Cons.IH)
    also have "\<dots> = out ++ map_of (rev (map row_kv (filter row_kept (row # rows))))"
      using True by (simp add: fun_eq_iff map_add_def split: option.splits)
    finally show ?thesis .
  next
    case False
    then have "edge_scores_loop (row # rows) out = edge_scores_loop rows out"
      by (auto simp: row_kept_def Let_def)
    with False show ?thesis by (simp add: Cons.IH)
  qed
qed

lemma sort_two:
  assumes "length k = 2"
  obtains a b where "sort k = [a, b]" and "set k = {a, b}"
proof -
  have "length (sort k) = 2" using assms by simp
  then obtain a b where ab: "sort k = [a, b]"
    by (cases "sort k"; simp) (metis length_0_conv length_Suc_conv)
  have "set k = set (sort k)" by simp
  with ab have "set k = {a, b}" by simp
  with ab that show ?thesis by blast
qed

lemma rows_of_item_wf:
  assumes "length k = 2" and "[] \<notin> set k"
  obtains row where "rows_of_item (k, es) = [row]" and "row_kept row"
    and "row_kv row = (set k, score_values es)"
proof -
  from assms(1) obtain a b where ab: "sort k = [a, b]" "set k = {a, b}" by (rule sort_two)
  obtain r n s where v: "score_values es = (r, n, s)" by (cases "score_values es")
  let ?row = "\<lparr>tile_a = a, tile_b = b, r2 = r, n_obs = n, n_sales = s\<rparr>"
  have 1: "rows_of_item (k, es) = [?row]" by (simp add: rows_of_item_def ab v)
  have 2: "row_kept ?row" using assms(2) ab(2) by (auto simp: row_kept_def)
  have 3: "row_kv ?row = (set k, score_values es)" by (simp add: row_kv_def ab v)
  from that[OF 1 2 3] show ?thesis .
qed

lemma kept_rows_of_table:
  assumes "\<forall>(k, es) \<in> set tab. length k = 2 \<and> distinct k \<and> [] \<notin> set k"
  shows "map row_kv (filter row_kept (concat (map rows_of_item tab))) =
           map (\<lambda>(k, es). (set k, score_values es)) tab"
  using assms
proof (induction tab)
  case Nil
  then show ?case by simp
next
  case (Cons item tab)
  obtain k es where item: "item = (k, es)" by (cases item)
  from Cons.prems item have "length k = 2" "[] \<notin> set k" by auto
  then obtain row where row: "rows_of_item (k, es) = [row]" "row_kept row"
      "row_kv row = (set k, score_values es)"
    by (rule rows_of_item_wf)
  from Cons.prems have "\<forall>(k, es) \<in> set tab. length k = 2 \<and> distinct k \<and> [] \<notin> set k" by simp
  from Cons.IH[OF this] row show ?case unfolding item by simp
qed

lemma map_of_rev_distinct:
  "distinct (map fst xs) \<Longrightarrow> map_of (rev xs) = map_of xs"
proof (induction xs)
  case Nil
  then show ?case by simp
next
  case (Cons x xs)
  obtain k v where x: "x = (k, v)" by (cases x)
  from Cons.prems x have nk: "k \<notin> fst ` set xs" and d: "distinct (map fst xs)" by auto
  from nk have none: "map_of xs k = None" by (simp add: map_of_eq_None_iff)
  show ?case unfolding x
    by (auto simp: Cons.IH[OF d] map_add_def fun_eq_iff none split: option.splits)
qed

lemma scores_round_trip:
  assumes wf: "\<forall>(k, es) \<in> set tab. length k = 2 \<and> distinct k \<and> [] \<notin> set k"
    and dk: "distinct (map (\<lambda>(k, es). set k) tab)"
  shows "df_to_edge_scores (Some (score_rows_loop tab [])) =
           map_of (map (\<lambda>(k, es). (set k, score_values es)) tab)"
proof -
  let ?kv = "map (\<lambda>(k, es). (set k, score_values es)) tab"
  have fst_kv: "map fst ?kv = map (\<lambda>(k, es). set k) tab" by (simp add: case_prod_unfold)
  have "edge_scores_loop (score_rows_loop tab []) Map.empty = map_of (rev ?kv)"
    by (simp add: edge_scores_loop_eq score_rows_loop_eq kept_rows_of_table[OF wf])
  also have "\<dots> = map_of ?kv"
    by (rule map_of_rev_distinct) (simp only: fst_kv dk)
  finally have loop: "edge_scores_loop (score_rows_loop tab []) Map.empty = map_of ?kv" .
  show ?thesis
  proof (cases "score_rows_loop tab [] = []")
    case True
    with loop show ?thesis by (simp add: df_to_edge_scores_def)
  next
    case False
    with loop show ?thesis by (simp add: df_to_edge_scores_def)
  qed
qed

lemma save_cache_Inr:
  assumes "save_cache adjacency edge_scores meta fs = Inr fs'"
  shows "mkdir_ok fs' \<and> meta_file fs' = Content meta \<and>
         adj_file fs' = Content (adj_rows_loop adjacency []) \<and>
         scores_file fs' = Content (score_rows_loop edge_scores [])"
  using assms
  by (auto simp: save_cache_def cache_paths_def bind_exn_def Let_def split: if_splits)

lemma load_cache_contents:
  assumes "mkdir_ok fs" "meta_file fs = Content m" "adj_file fs = Content ra"
    "scores_file fs = Content rs"
  shows "load_cache fs = Inr (py_optional m, Some ra, Some rs)"
  using assms by (simp add: load_cache_def cache_paths_def bind_exn_def read_file_def)

text \<open>
  Claim C3, as amended. Let the adjacency mapping be symmetric and free of self-loops, and
  let the edge-score table be keyed by two-element sets of distinct, non-empty tile ids
  (the keys pairwise different as sets, each given in any order of its two endpoints). If
  \<open>save_cache\<close> succeeds, then \<open>load_cache\<close> on the written directory returns the
  fingerprint (\<open>None\<close> if the fingerprint saved is \<open>null\<close>) and both row tables, \<open>df_to_adjacency\<close> of the loaded rows has exactly the
  original adjacency relation, and \<open>df_to_edge_scores\<close> of the loaded rows has exactly the
  original keys, each with the values \<open>(r2, n_obs, n_sales)\<close> of its score; for a score
  that has all three values these are the original ones.
\<close>

theorem save_load_round_trip:
  assumes "sym (adj_rel adjacency)" and "irrefl (adj_rel adjacency)"
    and "\<forall>(k, es) \<in> set edge_scores. length k = 2 \<and> distinct k \<and> [] \<notin> set k"
    and "distinct (map (\<lambda>(k, es). set k) edge_scores)"
    and "save_cache adjacency edge_scores meta fs = Inr fs'"
  shows "\<exists>df_adj df_scores.
      load_cache fs' = Inr (py_optional meta, Some df_adj, Some df_scores) \<and>
      (\<forall>a b. b \<in> nbrs (df_to_adjacency (Some df_adj)) a \<longleftrightarrow> (a, b) \<in> adj_rel adjacency) \<and>
      (\<forall>(k, es) \<in> set edge_scores.
          df_to_edge_scores (Some df_scores) (set k) = Some (score_values es)) \<and>
      dom (df_to_edge_scores (Some df_scores)) = (\<lambda>(k, es). set k) ` set edge_scores \<and>
      score_values (EsObject (Some r) (Some n) (Some s)) = (r, n, s) \<and>
      score_values (EsDict (Some r) (Some n) (Some s)) = (r, n, s)"
proof -
  let ?ra = "adj_rows_loop adjacency []"
  let ?rs = "score_rows_loop edge_scores []"
  let ?kv = "map (\<lambda>(k, es). (set k, score_values es)) edge_scores"
  from save_cache_Inr[OF assms(5)]
  have ld: "load_cache fs' = Inr (py_optional meta, Some ?ra, Some ?rs)"
    by (intro load_cache_contents) simp_all
  have adj: "\<forall>a b. b \<in> nbrs (df_to_adjacency (Some ?ra)) a \<longleftrightarrow> (a, b) \<in> adj_rel adjacency"
    using adjacency_round_trip[OF assms(1,2)] by blast
  have sc: "df_to_edge_scores (Some ?rs) = map_of ?kv"
    by (rule scores_round_trip[OF assms(3,4)])
  have dkv: "distinct (map fst ?kv)"
    using assms(4) by (simp add: case_prod_unfold comp_def)
  have vals: "\<forall>(k, es) \<in> set edge_scores.
      df_to_edge_scores (Some ?rs) (set k) = Some (score_values es)"
  proof (intro ballI, clarify)
    fix k es assume "(k, es) \<in> set edge_scores"
    then have "(set k, score_values es) \<in> set ?kv" by force
    with dkv show "df_to_edge_scores (Some ?rs) (set k) = Some (score_values es)"
      unfolding sc by (rule map_of_is_SomeI)
  qed
  have dm: "dom (df_to_edge_scores (Some ?rs)) = (\<lambda>(k, es). set k) ` set edge_scores"
    unfolding sc by (force simp: dom_map_of_conv_image_fst)
  from ld adj vals dm show ?thesis by simp
qed

text \<open>
  Claim C3 as stated fails for the empty tile id. The score keyed by the pair of the tile
  ids \<open>""\<close> and \<open>"x"\<close> is written as a row, the row is loaded, and \<open>df_to_edge_scores\<close>
  skips it because its first endpoint is empty: the key is missing after the round trip.
\<close>

theorem empty_id_score_lost:
  "save_cache [] empty_id_scores PNone empty_dir =
     Inr (empty_dir\<lparr>meta_file := Content PNone, adj_file := Content [],
                    scores_file := Content empty_id_rows\<rparr>) \<and>
   load_cache (empty_dir\<lparr>meta_file := Content PNone, adj_file := Content [],
                    scores_file := Content empty_id_rows\<rparr>) =
     Inr (None, Some [], Some empty_id_rows) \<and>
   df_to_edge_scores (Some empty_id_rows) {[], ''x''} = None"
  by (simp add: save_cache_def load_cache_def cache_paths_def bind_exn_def read_file_def
      py_optional_def empty_dir_def empty_id_scores_def empty_id_rows_def df_to_edge_scores_def
      Let_def)

lemma adj_rel_simps:
  "adj_rel [] = {}"
  "adj_rel ((a, nbs) # rest) = (\<lambda>b. (a, b)) ` set nbs \<union> adj_rel rest"
  by (auto simp: adj_rel_def)

text \<open>The amended claim on a graph of three tiles.\<close>

theorem save_load_round_trip_witness:
  "sym (adj_rel example_adjacency) \<and> irrefl (adj_rel example_adjacency) \<and>
   list_all (\<lambda>(k, es). length k = 2 \<and> distinct k \<and> [] \<notin> set k) example_scores \<and>
   distinct (map (\<lambda>(k, es). set k) example_scores) \<and>
   (\<exists>fs' df_adj df_scores.
      save_cache example_adjacency example_scores example_meta empty_dir = Inr fs' \<and>
      load_cache fs' = Inr (Some example_meta, Some df_adj, Some df_scores) \<and>
      nbrs (df_to_adjacency (Some df_adj)) ''b'' = {''a'', ''c''} \<and>
      df_to_edge_scores (Some df_scores) {''a'', ''b''} = Some (1 / 2, 4, 4) \<and>
      df_to_edge_scores (Some df_scores) {''b'', ''c''} = Some (1, 5, 3))"
proof -
  have rel: "adj_rel example_adjacency =
      {(''c'', ''b''), (''b'', ''c''), (''b'', ''a''), (''a'', ''b'')}"
    unfolding example_adjacency_def by (simp add: adj_rel_simps)
  have 1: "sym (adj_rel example_adjacency)" unfolding rel sym_def by simp
  have 2: "irrefl (adj_rel example_adjacency)" unfolding rel irrefl_def by simp
  have 3: "\<forall>(k, es) \<in> set example_scores. length k = 2 \<and> distinct k \<and> [] \<notin> set k"
    by (simp add: example_scores_def)
  have 4: "distinct (map (\<lambda>(k, es). set k) example_scores)"
    by (simp add: example_scores_def doubleton_eq_iff)
  obtain fs' where 5: "save_cache example_adjacency example_scores example_meta empty_dir = Inr fs'"
    by (simp add: save_cache_def cache_paths_def bind_exn_def empty_dir_def Let_def)
  from save_load_round_trip[OF 1 2 3 4 5, where r = 0 and n = 0 and s = 0]
  obtain df_adj df_scores where T:
    "load_cache fs' = Inr (py_optional example_meta, Some df_adj, Some df_scores) \<and>
      (\<forall>a b. b \<in> nbrs (df_to_adjacency (Some df_adj)) a \<longleftrightarrow> (a, b) \<in> adj_rel example_adjacency) \<and>
      (\<forall>(k, es) \<in> set example_scores.
          df_to_edge_scores (Some df_scores) (set k) = Some (score_values es)) \<and>
      dom (df_to_edge_scores (Some df_scores)) = (\<lambda>(k, es). set k) ` set example_scores \<and>
      score_values (EsObject (Some (0::rat)) (Some 0) (Some 0)) = (0, 0, 0) \<and>
      score_values (EsDict (Some (0::rat)) (Some 0) (Some 0)) = (0, 0, 0)"
    by (elim exE)
  from T have "load_cache fs' = Inr (py_optional example_meta, Some df_adj, Some df_scores)"
    by (rule conjunct1)
  moreover have "py_optional example_meta = Some example_meta"
    by (simp add: py_optional_def example_meta_def make_cache_key_def)
  ultimately have ld: "load_cache fs' = Inr (Some example_meta, Some df_adj, Some df_scores)"
    by simp
  from T have adj: "\<forall>a b. b \<in> nbrs (df_to_adjacency (Some df_adj)) a \<longleftrightarrow> (a, b) \<in> adj_rel example_adjacency"
    by (elim conjE)
  from T have sc: "\<forall>(k, es) \<in> set example_scores.
          df_to_edge_scores (Some df_scores) (set k) = Some (score_values es)"
    by (elim conjE)
  have a: "nbrs (df_to_adjacency (Some df_adj)) ''b'' = {''a'', ''c''}"
  proof -
    have "nbrs (df_to_adjacency (Some df_adj)) ''b'' = {b. (''b'', b) \<in> adj_rel example_adjacency}"
      using adj by blast
    also have "\<dots> = {''a'', ''c''}" unfolding rel by (simp add: set_eq_iff disj_commute)
    finally show ?thesis .
  qed
  from sc have "df_to_edge_scores (Some df_scores) (set [''b'', ''a'']) = Some (1 / 2, 4, 4)"
    "df_to_edge_scores (Some df_scores) (set [''b'', ''c'']) = Some (1, 5, 3)"
    by (simp_all add: example_scores_def)
  then have b: "df_to_edge_scores (Some df_scores) {''a'', ''b''} = Some (1 / 2, 4, 4)"
    "df_to_edge_scores (Some df_scores) {''b'', ''c''} = Some (1, 5, 3)"
    by (simp_all add: insert_commute)
  have "\<exists>fs' df_adj df_scores.
      save_cache example_adjacency example_scores example_meta empty_dir = Inr fs' \<and>
      load_cache fs' = Inr (Some example_meta, Some df_adj, Some df_scores) \<and>
      nbrs (df_to_adjacency (Some df_adj)) ''b'' = {''a'', ''c''} \<and>
      df_to_edge_scores (Some df_scores) {''a'', ''b''} = Some (1 / 2, 4, 4) \<and>
      df_to_edge_scores (Some df_scores) {''b'', ''c''} = Some (1, 5, 3)"
    apply (rule exI[of _ fs'], rule exI[of _ df_adj], rule exI[of _ df_scores])
    apply (intro conjI)
        apply (rule 5)
       apply (rule ld)
      apply (rule a)
     apply (rule b(1))
    apply (rule b(2))
    done
  moreover have "list_all (\<lambda>(k, es). length k = 2 \<and> distinct k \<and> [] \<notin> set k) example_scores"
    by (simp add: example_scores_def)
  ultimately show ?thesis using 1 2 4 by (intro conjI)
qed

subsection \<open>The adjacency worker\<close>

lemma pair_overlaps_area_Some_iff:
  "pair_overlaps_area eng G pair = Some p \<longleftrightarrow>
     (\<exists>i j geoms gi gj isect a. pair = [i, j] \<and> p = (i, j) \<and> G = Some geoms \<and>
        py_index geoms i = Inr gi \<and> py_index geoms j = Inr gj \<and>
        intersection eng gi gj = Inr isect \<and> getattr_area eng isect = Inr a \<and> flt (Fin 0) a)"
  unfolding pair_overlaps_area_def pair_overlaps_area_body_def bind_exn_def
  by (auto split: list.splits option.splits sum.splits if_splits)

lemma py_index_out_of_range:
  "i < - int (length xs) \<or> int (length xs) \<le> i \<Longrightarrow> py_index xs i = Inl IndexError"
  by (auto simp: py_index_def)

text \<open>
  Claim C4. For an index pair \<open>(i, j)\<close> the adjacency worker returns the pair exactly when
  both indices select a geometry, their intersection is computed and its area is
  strictly positive, and it never returns anything but the pair or \<open>None\<close>. An area of
  exactly zero gives \<open>None\<close>. So do an exception of the body, an index out of range, a
  failing intersection and a missing area attribute.
\<close>

theorem pair_overlaps_area_spec:
  "(pair_overlaps_area eng G [i, j] = Some (i, j) \<longleftrightarrow>
      (\<exists>geoms gi gj isect a. G = Some geoms \<and>
         py_index geoms i = Inr gi \<and> py_index geoms j = Inr gj \<and>
         intersection eng gi gj = Inr isect \<and> getattr_area eng isect = Inr a \<and> flt (Fin 0) a)) \<and>
   (pair_overlaps_area eng G [i, j] = None \<or> pair_overlaps_area eng G [i, j] = Some (i, j)) \<and>
   (G = Some geoms \<and> py_index geoms i = Inr gi \<and> py_index geoms j = Inr gj \<and>
      intersection eng gi gj = Inr isect \<and> area_attr eng isect = Inr (Fin 0)
      \<longrightarrow> pair_overlaps_area eng G [i, j] = None) \<and>
   (pair_overlaps_area_body eng G pair = Inl e \<longrightarrow> pair_overlaps_area eng G pair = None) \<and>
   (G = Some geoms \<and>
      (i < - int (length geoms) \<or> int (length geoms) \<le> i \<or>
       j < - int (length geoms) \<or> int (length geoms) \<le> j)
      \<longrightarrow> pair_overlaps_area eng G [i, j] = None) \<and>
   (G = Some geoms \<and> py_index geoms i = Inr gi \<and> py_index geoms j = Inr gj \<and>
      intersection eng gi gj = Inl e \<longrightarrow> pair_overlaps_area eng G [i, j] = None) \<and>
   (G = Some geoms \<and> py_index geoms i = Inr gi \<and> py_index geoms j = Inr gj \<and>
      intersection eng gi gj = Inr isect \<and> area_attr eng isect = Inl AttributeError
      \<longrightarrow> pair_overlaps_area eng G [i, j] = None)"
proof (intro conjI)
  show "pair_overlaps_area eng G [i, j] = Some (i, j) \<longleftrightarrow>
      (\<exists>geoms gi gj isect a. G = Some geoms \<and>
         py_index geoms i = Inr gi \<and> py_index geoms j = Inr gj \<and>
         intersection eng gi gj = Inr isect \<and> getattr_area eng isect = Inr a \<and> flt (Fin 0) a)"
    unfolding pair_overlaps_area_Some_iff by auto
  show "pair_overlaps_area eng G [i, j] = None \<or> pair_overlaps_area eng G [i, j] = Some (i, j)"
  proof (cases "pair_overlaps_area eng G [i, j]")
    case None
    then show ?thesis by simp
  next
    case (Some p)
    then have "p = (i, j)" unfolding pair_overlaps_area_Some_iff by auto
    with Some show ?thesis by simp
  qed
  show "G = Some geoms \<and> py_index geoms i = Inr gi \<and> py_index geoms j = Inr gj \<and>
      intersection eng gi gj = Inr isect \<and> area_attr eng isect = Inr (Fin 0)
      \<longrightarrow> pair_overlaps_area eng G [i, j] = None"
    by (simp add: pair_overlaps_area_def pair_overlaps_area_body_def bind_exn_def getattr_area_def)
  show "pair_overlaps_area_body eng G pair = Inl e \<longrightarrow> pair_overlaps_area eng G pair = None"
    by (simp add: pair_overlaps_area_def)
  show "G = Some geoms \<and>
      (i < - int (length geoms) \<or> int (length geoms) \<le> i \<or>
       j < - int (length geoms) \<or> int (length geoms) \<le> j)
      \<longrightarrow> pair_overlaps_area eng G [i, j] = None"
    by (auto simp: pair_overlaps_area_def pair_overlaps_area_body_def bind_exn_def
        py_index_out_of_range split: sum.splits)
  show "G = Some geoms \<and> py_index geoms i = Inr gi \<and> py_index geoms j = Inr gj \<and>
      intersection eng gi gj = Inl e \<longrightarrow> pair_overlaps_area eng G [i, j] = None"
    by (simp add: pair_overlaps_area_def pair_overlaps_area_body_def bind_exn_def)
  show "G = Some geoms \<and> py_index geoms i = Inr gi \<and> py_index geoms j = Inr gj \<and>
      intersection eng gi gj = Inr isect \<and> area_attr eng isect = Inl AttributeError
      \<longrightarrow> pair_overlaps_area eng G [i, j] = None"
    by (simp add: pair_overlaps_area_def pair_overlaps_area_body_def bind_exn_def getattr_area_def)
qed


text \<open>
  The theorem on four intervals: the first two overlap on a length of 2 and are returned;
  the second and third only touch (area 0); index 7 is out of range; the fourth interval
  makes the intersection raise.
\<close>

theorem pair_overlaps_area_spec_witness:
  "pair_overlaps_area interval_engine (Some example_geoms) [0, 1] = Some (0, 1) \<and>
   pair_overlaps_area interval_engine (Some example_geoms) [1, 2] = None \<and>
   pair_overlaps_area interval_engine (Some example_geoms) [0, 7] = None \<and>
   pair_overlaps_area interval_engine (Some example_geoms) [0, 3] = None"
proof -
  let ?G = "Some example_geoms"
  have ix: "py_index example_geoms 0 = Inr (0, 10)" "py_index example_geoms 1 = Inr (8, 20)"
    "py_index example_geoms 2 = Inr (20, 30)" "py_index example_geoms 3 = Inr (5, 1)"
    by (simp_all add: py_index_def example_geoms_def)
  have i01: "intersection interval_engine (0, 10) (8, 20) = Inr (8, 10)"
    and i12: "intersection interval_engine (8, 20) (20, 30) = Inr (20, 20)"
    and i03: "intersection interval_engine (0, 10) (5, 1) = Inl ValueError"
    by (simp_all add: interval_engine_def)
  have a01: "getattr_area interval_engine (8, 10) = Inr (Fin 2)"
    and a12: "area_attr interval_engine (20, 20) = Inr (Fin 0)"
    by (simp_all add: interval_engine_def getattr_area_def)
  have pos: "flt (Fin 0) (Fin 2)" by simp
  have len: "int (length example_geoms) \<le> 7" by (simp add: example_geoms_def)
  have 1: "pair_overlaps_area interval_engine ?G [0, 1] = Some (0, 1)"
    using pair_overlaps_area_spec[of interval_engine ?G 0 1] ix(1,2) i01 a01 pos by blast
  have 2: "pair_overlaps_area interval_engine ?G [1, 2] = None"
    using pair_overlaps_area_spec[of interval_engine ?G 1 2 example_geoms "(8, 20)" "(20, 30)" "(20, 20)"]
      ix(2,3) i12 a12 by blast
  have 3: "pair_overlaps_area interval_engine ?G [0, 7] = None"
    using pair_overlaps_area_spec[of interval_engine ?G 0 7 example_geoms] len by blast
  have 4: "pair_overlaps_area interval_engine ?G [0, 3] = None"
    using pair_overlaps_area_spec[of interval_engine ?G 0 3 example_geoms "(0, 10)" "(5, 1)" _ _ ValueError]
      ix(1,4) i03 by blast
  from 1 2 3 4 show ?thesis by (intro conjI)
qed

subsection \<open>ols_r2 and the score of the worker\<close>

lemma clamp_r2_zero [simp]: "clamp_r2 (Fin 0) = Fin 0"
  by (simp add: clamp_r2_def py_min_def py_max_def)

lemma clamp_r2_bounds:
  "isfinite r \<Longrightarrow> fle (Fin (- 1)) (clamp_r2 r) \<and> fle (clamp_r2 r) (Fin 1)"
  by (cases r) (auto simp: clamp_r2_def py_min_def py_max_def fle_def)

lemma worker_r2_bounds:
  "fle (Fin (- 1)) (worker_r2 env y X) \<and> fle (worker_r2 env y X) (Fin 1)"
  unfolding worker_r2_def Let_def by (rule clamp_r2_bounds) simp

text \<open>
  Claim C10. For every target vector and design matrix on which \<open>lstsq\<close> does not raise,
  \<open>ols_r2\<close> returns exactly the value the edge-scoring worker computes inline: the same
  intercept column, zero for a total sum of squares that is not positive, zero for a result
  that is not finite, and the same clamp.
\<close>

theorem ols_r2_refines_worker:
  assumes "lstsq env (column_stack_ones X) y = Inr beta"
  shows "ols_r2 env y X = Inr (worker_r2 env y X)"
  using assms by (simp add: ols_r2_def worker_r2_def Let_def)


text \<open>The theorem on four observations whose target is the sum of the two regressors: the fit
  is exact and both computations give 1.0.\<close>

theorem ols_r2_refines_worker_witness:
  "lstsq toy_env (column_stack_ones example_X) example_y = Inr [0, 1, 1] \<and>
   worker_r2 toy_env example_y example_X = Fin 1 \<and>
   ols_r2 toy_env example_y example_X = Inr (Fin 1)"
proof -
  have 1: "lstsq toy_env (column_stack_ones example_X) example_y = Inr [0, 1, 1]"
    by (simp add: toy_env_def column_stack_ones_def example_X_def example_y_def)
  have 2: "worker_r2 toy_env example_y example_X = Fin 1"
    by (simp add: worker_r2_def toy_env_def column_stack_ones_def example_X_def example_y_def
        fle_def clamp_r2_def py_min_def py_max_def)
  from ols_r2_refines_worker[OF 1] 2 have "ols_r2 toy_env example_y example_X = Inr (Fin 1)"
    by simp
  with 1 2 show ?thesis by (intro conjI)
qed

subsection \<open>The branches of the edge-scoring worker\<close>

lemma iloc_Inr:
  assumes "iloc df idxs = Inr sub"
  shows "length (df_rows sub) = length idxs" and "df_columns sub = df_columns df"
  using assms by (auto simp: iloc_def Let_def split: if_splits)

lemma body_empty:
  assumes "gathered env pl a b = []"
  shows "score_edge_body env pl [a, b] = Inr (a, b, Fin 0, 0, 0)"
  using assms by (simp add: score_edge_body_def gathered_def Let_def)

lemma body_no_table:
  assumes "gathered env pl a b \<noteq> []" and "PARCELS_MIN_DF pl = None"
  shows "score_edge_body env pl [a, b] = Inl AttributeError"
  using assms by (simp add: score_edge_body_def gathered_def Let_def bind_exn_def)

lemma body_bad_index:
  assumes "gathered env pl a b \<noteq> []" and "PARCELS_MIN_DF pl = Some df"
    and "iloc df (gathered env pl a b) = Inl e"
  shows "score_edge_body env pl [a, b] = Inl e"
  using assms by (simp add: score_edge_body_def gathered_def Let_def bind_exn_def)

lemma body_few_sales:
  assumes "gathered env pl a b \<noteq> []" and "PARCELS_MIN_DF pl = Some df"
    and "iloc df (gathered env pl a b) = Inr sub" and "count_sales sub < 3"
  shows "score_edge_body env pl [a, b] =
           Inr (a, b, Fin 0, int (length (df_rows sub)), count_sales sub)"
  using assms by (simp add: score_edge_body_def gathered_def Let_def bind_exn_def)

lemma body_missing_column:
  assumes "gathered env pl a b \<noteq> []" and "PARCELS_MIN_DF pl = Some df"
    and "iloc df (gathered env pl a b) = Inr sub" and "\<not> count_sales sub < 3"
    and "\<not> list_all (\<lambda>c. c \<in> set (df_columns sub)) required_cols"
  shows "score_edge_body env pl [a, b] =
           Inr (a, b, Fin 0, int (length (df_rows sub)), count_sales sub)"
  using assms by (simp add: score_edge_body_def gathered_def Let_def bind_exn_def)

lemma body_bad_cell:
  assumes "gathered env pl a b \<noteq> []" and "PARCELS_MIN_DF pl = Some df"
    and "iloc df (gathered env pl a b) = Inr sub" and "\<not> count_sales sub < 3"
    and "list_all (\<lambda>c. c \<in> set (df_columns sub)) required_cols"
    and "astype_rows (df_rows sub) = Inl e"
  shows "score_edge_body env pl [a, b] = Inl e"
  using assms by (simp add: score_edge_body_def gathered_def Let_def bind_exn_def)

lemma body_few_rows:
  assumes "gathered env pl a b \<noteq> []" and "PARCELS_MIN_DF pl = Some df"
    and "iloc df (gathered env pl a b) = Inr sub" and "\<not> count_sales sub < 3"
    and "list_all (\<lambda>c. c \<in> set (df_columns sub)) required_cols"
    and "astype_rows (df_rows sub) = Inr floats" and "length (dropna floats) < 3"
  shows "score_edge_body env pl [a, b] =
           Inr (a, b, Fin 0, int (length (df_rows sub)), count_sales sub)"
  using assms by (simp add: score_edge_body_def gathered_def Let_def bind_exn_def)

lemma body_fit:
  assumes "gathered env pl a b \<noteq> []" and "PARCELS_MIN_DF pl = Some df"
    and "iloc df (gathered env pl a b) = Inr sub" and "\<not> count_sales sub < 3"
    and "list_all (\<lambda>c. c \<in> set (df_columns sub)) required_cols"
    and "astype_rows (df_rows sub) = Inr floats" and "\<not> length (dropna floats) < 3"
  shows "score_edge_body env pl [a, b] =
           Inr (a, b, worker_r2 env (fit_y (dropna floats)) (fit_X (dropna floats)),
                int (length (dropna floats)), count_sales sub)"
  using assms
  by (simp add: score_edge_body_def gathered_def Let_def bind_exn_def fit_y_def fit_X_def)

lemma body_not_pair:
  assumes "length pair \<noteq> 2"
  shows "score_edge_body env pl pair = Inl ValueError"
  using assms by (auto simp: score_edge_body_def split: list.splits)

lemma pair_cases:
  obtains a b where "pair = [a, b]" | "length pair \<noteq> 2"
  by (cases pair rule: list.exhaust[case_product list.exhaust]; cases "tl pair"; cases "tl (tl pair)"; auto)

text \<open>Every result of the body carries \<open>0.0\<close> or a clamped score.\<close>

lemma body_r2:
  assumes "score_edge_body env pl pair = Inr res"
  shows "res_r2 res = Fin 0 \<or> (\<exists>y X. res_r2 res = worker_r2 env y X)"
proof -
  consider a b where "pair = [a, b]" | "length pair \<noteq> 2" by (rule pair_cases)
  then show ?thesis
  proof cases
    case 2
    with assms show ?thesis by (simp add: body_not_pair)
  next
    case 1
    note p = 1
    show ?thesis
    proof (cases "gathered env pl a b = []")
      case True
      from body_empty[OF True] assms p show ?thesis by (auto simp: res_r2_def)
    next
      case ne: False
      show ?thesis
      proof (cases "PARCELS_MIN_DF pl")
        case None
        from body_no_table[OF ne None] assms p show ?thesis by simp
      next
        case (Some df)
        show ?thesis
        proof (cases "iloc df (gathered env pl a b)")
          case (Inl e)
          from body_bad_index[OF ne Some Inl] assms p show ?thesis by simp
        next
          case (Inr sub)
          note B = ne Some Inr
          show ?thesis
          proof (cases "count_sales sub < 3")
            case True
            from body_few_sales[OF B True] assms p show ?thesis by (auto simp: res_r2_def)
          next
            case s: False
            show ?thesis
            proof (cases "list_all (\<lambda>c. c \<in> set (df_columns sub)) required_cols")
              case False
              from body_missing_column[OF B s False] assms p show ?thesis
                by (auto simp: res_r2_def)
            next
              case c: True
              show ?thesis
              proof (cases "astype_rows (df_rows sub)")
                case (Inl e)
                from body_bad_cell[OF B s c Inl] assms p show ?thesis by simp
              next
                case (Inr floats)
                show ?thesis
                proof (cases "length (dropna floats) < 3")
                  case True
                  from body_few_rows[OF B s c Inr True] assms p show ?thesis
                    by (auto simp: res_r2_def)
                next
                  case False
                  from body_fit[OF B s c Inr False] assms p show ?thesis
                    by (auto simp: res_r2_def)
                qed
              qed
            qed
          qed
        qed
      qed
    qed
  qed
qed

lemma worker_of_body:
  "score_edge_body env pl pair = Inr res \<Longrightarrow> score_edge_pair_worker env pl pair = res"
  "score_edge_body env pl [a, b] = Inl e \<Longrightarrow>
     score_edge_pair_worker env pl [a, b] = (a, b, Fin 0, 0, 0)"
  "score_edge_body env pl pair = Inl e \<Longrightarrow> length pair \<noteq> 2 \<Longrightarrow>
     score_edge_pair_worker env pl pair = ([], [], Fin 0, 0, 0)"
  by (auto simp: score_edge_pair_worker_def split: list.splits)

lemma fle_zero_bounds: "fle (Fin (- 1)) (Fin 0) \<and> fle (Fin 0) (Fin 1)"
  by (simp add: fle_def)

lemma worker_r2_in_range:
  "fle (Fin (- 1)) (res_r2 (score_edge_pair_worker env pl pair)) \<and>
   fle (res_r2 (score_edge_pair_worker env pl pair)) (Fin 1)"
proof (cases "score_edge_body env pl pair")
  case (Inr res)
  have w: "score_edge_pair_worker env pl pair = res" by (rule worker_of_body(1)[OF Inr])
  from body_r2[OF Inr] consider "res_r2 res = Fin 0"
    | y X where "res_r2 res = worker_r2 env y X" by blast
  then show ?thesis
  proof cases
    case 1
    then show ?thesis using fle_zero_bounds by (simp add: w)
  next
    case 2
    then show ?thesis using worker_r2_bounds[of env y X] by (simp add: w)
  qed
next
  case (Inl e)
  then have "res_r2 (score_edge_pair_worker env pl pair) = Fin 0"
    by (auto simp: score_edge_pair_worker_def res_r2_def split: list.splits)
  then show ?thesis using fle_zero_bounds by simp
qed


lemma gathered_count:
  assumes "set (gathered env pl a b) = idx_of (mapping_of pl) a \<union> idx_of (mapping_of pl) b"
    and "distinct (gathered env pl a b)"
  shows "int (length (gathered env pl a b)) =
           int (card (idx_of (mapping_of pl) a \<union> idx_of (mapping_of pl) b))"
  using assms distinct_card[of "gathered env pl a b"] by simp

text \<open>
  Claim C5. Let \<open>list\<close> of the union of the parcel indices of \<open>A\<close> and \<open>B\<close> enumerate the
  union without repetition. If the union is empty the worker returns \<open>(A, B, 0.0, 0, 0)\<close>.
  Otherwise, with the gathered rows \<open>sub\<close>: if fewer than 3 of them have a sale price, or
  a required regression column is absent, or fewer than 3 complete rows remain after
  dropping the rows with a missing value, the worker returns \<open>r2 = 0.0\<close>, \<open>n_obs\<close> the
  number of gathered parcels and \<open>n_sales\<close> the number of sales; in the fit case \<open>n_obs\<close> is
  the number of complete rows.
\<close>

theorem score_edge_branches:
  assumes "set (gathered env pl a b) = idx_of (mapping_of pl) a \<union> idx_of (mapping_of pl) b"
    and "distinct (gathered env pl a b)"
  shows
  "(idx_of (mapping_of pl) a \<union> idx_of (mapping_of pl) b = {} \<longrightarrow>
      score_edge_pair_worker env pl [a, b] = (a, b, Fin 0, 0, 0)) \<and>
   (idx_of (mapping_of pl) a \<union> idx_of (mapping_of pl) b \<noteq> {} \<and>
    PARCELS_MIN_DF pl = Some df \<and> iloc df (gathered env pl a b) = Inr sub \<longrightarrow>
      ((count_sales sub < 3 \<or>
        \<not> list_all (\<lambda>c. c \<in> set (df_columns sub)) required_cols \<or>
        (astype_rows (df_rows sub) = Inr floats \<and> length (dropna floats) < 3) \<longrightarrow>
          score_edge_pair_worker env pl [a, b] =
            (a, b, Fin 0,
             int (card (idx_of (mapping_of pl) a \<union> idx_of (mapping_of pl) b)),
             count_sales sub)) \<and>
       (3 \<le> count_sales sub \<and>
        list_all (\<lambda>c. c \<in> set (df_columns sub)) required_cols \<and>
        astype_rows (df_rows sub) = Inr floats \<and> 3 \<le> length (dropna floats) \<longrightarrow>
          score_edge_pair_worker env pl [a, b] =
            (a, b, worker_r2 env (fit_y (dropna floats)) (fit_X (dropna floats)),
             int (length (dropna floats)), count_sales sub))))"
proof (intro conjI impI)
  assume "idx_of (mapping_of pl) a \<union> idx_of (mapping_of pl) b = {}"
  with assms(1) have "gathered env pl a b = []" by simp
  from worker_of_body(1)[OF body_empty[OF this]]
  show "score_edge_pair_worker env pl [a, b] = (a, b, Fin 0, 0, 0)" .
next
  assume h: "idx_of (mapping_of pl) a \<union> idx_of (mapping_of pl) b \<noteq> {} \<and>
    PARCELS_MIN_DF pl = Some df \<and> iloc df (gathered env pl a b) = Inr sub"
  with assms(1) have ne: "gathered env pl a b \<noteq> []" by auto
  from h have df: "PARCELS_MIN_DF pl = Some df" and sub: "iloc df (gathered env pl a b) = Inr sub"
    by simp_all
  note B = ne df sub
  have n: "int (length (df_rows sub)) =
      int (card (idx_of (mapping_of pl) a \<union> idx_of (mapping_of pl) b))"
    using iloc_Inr(1)[OF sub] gathered_count[OF assms] by simp
  {
    assume low: "count_sales sub < 3 \<or>
        \<not> list_all (\<lambda>c. c \<in> set (df_columns sub)) required_cols \<or>
        (astype_rows (df_rows sub) = Inr floats \<and> length (dropna floats) < 3)"
    have "score_edge_body env pl [a, b] =
        Inr (a, b, Fin 0, int (length (df_rows sub)), count_sales sub)"
    proof (cases "count_sales sub < 3")
      case True
      then show ?thesis by (rule body_few_sales[OF B])
    next
      case s: False
      show ?thesis
      proof (cases "list_all (\<lambda>c. c \<in> set (df_columns sub)) required_cols")
        case False
        then show ?thesis by (rule body_missing_column[OF B s])
      next
        case c: True
        with s low have "astype_rows (df_rows sub) = Inr floats" "length (dropna floats) < 3"
          by simp_all
        then show ?thesis by (rule body_few_rows[OF B s c])
      qed
    qed
    from worker_of_body(1)[OF this]
    show "score_edge_pair_worker env pl [a, b] =
            (a, b, Fin 0,
             int (card (idx_of (mapping_of pl) a \<union> idx_of (mapping_of pl) b)),
             count_sales sub)"
      by (simp add: n)
  }
  {
    assume fit: "3 \<le> count_sales sub \<and>
        list_all (\<lambda>c. c \<in> set (df_columns sub)) required_cols \<and>
        astype_rows (df_rows sub) = Inr floats \<and> 3 \<le> length (dropna floats)"
    then have "\<not> count_sales sub < 3" "list_all (\<lambda>c. c \<in> set (df_columns sub)) required_cols"
      "astype_rows (df_rows sub) = Inr floats" "\<not> length (dropna floats) < 3"
      by simp_all
    from worker_of_body(1)[OF body_fit[OF B this]]
    show "score_edge_pair_worker env pl [a, b] =
            (a, b, worker_r2 env (fit_y (dropna floats)) (fit_X (dropna floats)),
             int (length (dropna floats)), count_sales sub)" .
  }
qed

lemma worker_r2_zero_cases:
  "lstsq env (column_stack_ones X) y = Inl e \<Longrightarrow> worker_r2 env y X = Fin 0"
  "lstsq env (column_stack_ones X) y = Inr beta \<Longrightarrow> fle (ss_tot env y) (Fin 0) \<Longrightarrow>
     worker_r2 env y X = Fin 0"
  "lstsq env (column_stack_ones X) y = Inr beta \<Longrightarrow>
     \<not> isfinite (fsub env (Fin 1)
          (fdiv env (ss_res env (column_stack_ones X) beta y) (ss_tot env y))) \<Longrightarrow>
     worker_r2 env y X = Fin 0"
  by (simp_all add: worker_r2_def Let_def)

text \<open>
  Claim C6. The worker is a total function: its result is the result of the body, or the
  safe default when the body raises, with the identifiers of the pair when the pair can
  be unpacked and empty strings otherwise. The returned \<open>r2\<close> lies in \<open>[-1.0, 1.0]\<close> for
  every input. It equals \<open>0.0\<close> when fewer than 3 gathered parcels have a sale price or a
  required column is missing; in the fit case it is the clamped score, which equals \<open>0.0\<close>
  when \<open>lstsq\<close> raises, when the total sum of squares is not positive and when the fit
  gives a value that is not finite.
\<close>

theorem score_edge_worker_safe:
  "fle (Fin (- 1)) (res_r2 (score_edge_pair_worker env pl pair)) \<and>
   fle (res_r2 (score_edge_pair_worker env pl pair)) (Fin 1) \<and>
   (score_edge_body env pl pair = Inr res \<longrightarrow> score_edge_pair_worker env pl pair = res) \<and>
   (score_edge_body env pl [a, b] = Inl e \<longrightarrow>
      score_edge_pair_worker env pl [a, b] = (a, b, Fin 0, 0, 0)) \<and>
   (score_edge_body env pl pair = Inl e \<and> length pair \<noteq> 2 \<longrightarrow>
      score_edge_pair_worker env pl pair = ([], [], Fin 0, 0, 0)) \<and>
   (gathered env pl a b \<noteq> [] \<and> PARCELS_MIN_DF pl = Some df \<and>
    iloc df (gathered env pl a b) = Inr sub \<and>
    (count_sales sub < 3 \<or> \<not> list_all (\<lambda>c. c \<in> set (df_columns sub)) required_cols) \<longrightarrow>
      res_r2 (score_edge_pair_worker env pl [a, b]) = Fin 0) \<and>
   (gathered env pl a b \<noteq> [] \<and> PARCELS_MIN_DF pl = Some df \<and>
    iloc df (gathered env pl a b) = Inr sub \<and> 3 \<le> count_sales sub \<and>
    list_all (\<lambda>c. c \<in> set (df_columns sub)) required_cols \<and>
    astype_rows (df_rows sub) = Inr floats \<and> 3 \<le> length (dropna floats) \<longrightarrow>
      res_r2 (score_edge_pair_worker env pl [a, b]) =
        worker_r2 env (fit_y (dropna floats)) (fit_X (dropna floats))) \<and>
   (lstsq env (column_stack_ones X) y = Inl e \<longrightarrow> worker_r2 env y X = Fin 0) \<and>
   (lstsq env (column_stack_ones X) y = Inr beta \<and> fle (ss_tot env y) (Fin 0) \<longrightarrow>
      worker_r2 env y X = Fin 0) \<and>
   (lstsq env (column_stack_ones X) y = Inr beta \<and>
    \<not> isfinite (fsub env (Fin 1)
         (fdiv env (ss_res env (column_stack_ones X) beta y) (ss_tot env y))) \<longrightarrow>
      worker_r2 env y X = Fin 0)"
proof (intro conjI impI)
  show "fle (Fin (- 1)) (res_r2 (score_edge_pair_worker env pl pair))"
    and "fle (res_r2 (score_edge_pair_worker env pl pair)) (Fin 1)"
    using worker_r2_in_range[of env pl pair] by simp_all
next
  assume "score_edge_body env pl pair = Inr res"
  then show "score_edge_pair_worker env pl pair = res" by (rule worker_of_body(1))
next
  assume "score_edge_body env pl [a, b] = Inl e"
  then show "score_edge_pair_worker env pl [a, b] = (a, b, Fin 0, 0, 0)"
    by (rule worker_of_body(2))
next
  assume "score_edge_body env pl pair = Inl e \<and> length pair \<noteq> 2"
  then have "score_edge_body env pl pair = Inl e" "length pair \<noteq> 2" by simp_all
  then show "score_edge_pair_worker env pl pair = ([], [], Fin 0, 0, 0)"
    by (rule worker_of_body(3))
next
  assume h: "gathered env pl a b \<noteq> [] \<and> PARCELS_MIN_DF pl = Some df \<and>
    iloc df (gathered env pl a b) = Inr sub \<and>
    (count_sales sub < 3 \<or> \<not> list_all (\<lambda>c. c \<in> set (df_columns sub)) required_cols)"
  then have B: "gathered env pl a b \<noteq> []" "PARCELS_MIN_DF pl = Some df"
    "iloc df (gathered env pl a b) = Inr sub" by simp_all
  have "score_edge_body env pl [a, b] =
      Inr (a, b, Fin 0, int (length (df_rows sub)), count_sales sub)"
  proof (cases "count_sales sub < 3")
    case True
    then show ?thesis by (rule body_few_sales[OF B])
  next
    case False
    with h have "\<not> list_all (\<lambda>c. c \<in> set (df_columns sub)) required_cols" by simp
    with False show ?thesis by (rule body_missing_column[OF B])
  qed
  from worker_of_body(1)[OF this]
  show "res_r2 (score_edge_pair_worker env pl [a, b]) = Fin 0" by (simp add: res_r2_def)
next
  assume h: "gathered env pl a b \<noteq> [] \<and> PARCELS_MIN_DF pl = Some df \<and>
    iloc df (gathered env pl a b) = Inr sub \<and> 3 \<le> count_sales sub \<and>
    list_all (\<lambda>c. c \<in> set (df_columns sub)) required_cols \<and>
    astype_rows (df_rows sub) = Inr floats \<and> 3 \<le> length (dropna floats)"
  then have B: "gathered env pl a b \<noteq> []" "PARCELS_MIN_DF pl = Some df"
    "iloc df (gathered env pl a b) = Inr sub" "\<not> count_sales sub < 3"
    "list_all (\<lambda>c. c \<in> set (df_columns sub)) required_cols"
    "astype_rows (df_rows sub) = Inr floats" "\<not> length (dropna floats) < 3"
    by simp_all
  from worker_of_body(1)[OF body_fit[OF B]]
  show "res_r2 (score_edge_pair_worker env pl [a, b]) =
        worker_r2 env (fit_y (dropna floats)) (fit_X (dropna floats))"
    by (simp add: res_r2_def)
next
  assume "lstsq env (column_stack_ones X) y = Inl e"
  then show "worker_r2 env y X = Fin 0" by (rule worker_r2_zero_cases(1))
next
  assume "lstsq env (column_stack_ones X) y = Inr beta \<and> fle (ss_tot env y) (Fin 0)"
  then have "lstsq env (column_stack_ones X) y = Inr beta" "fle (ss_tot env y) (Fin 0)"
    by simp_all
  then show "worker_r2 env y X = Fin 0" by (rule worker_r2_zero_cases(2))
next
  assume "lstsq env (column_stack_ones X) y = Inr beta \<and>
    \<not> isfinite (fsub env (Fin 1)
         (fdiv env (ss_res env (column_stack_ones X) beta y) (ss_tot env y)))"
  then have "lstsq env (column_stack_ones X) y = Inr beta"
    "\<not> isfinite (fsub env (Fin 1)
         (fdiv env (ss_res env (column_stack_ones X) beta y) (ss_tot env y)))"
    by simp_all
  then show "worker_r2 env y X = Fin 0" by (rule worker_r2_zero_cases(3))
qed


subsection \<open>The worker on the example parcels\<close>

lemma toy_fit: "worker_r2 toy_env example_y example_X = Fin 1"
  by (simp add: worker_r2_def toy_env_def column_stack_ones_def example_X_def example_y_def
      fle_def clamp_r2_def py_min_def py_max_def)

lemma example_gathered:
  "gathered toy_env example_payload ''A'' ''B'' = [0, 1, 2, 3, 4]"
  "gathered toy_env example_payload ''C'' ''D'' = [0, 1]"
  "gathered toy_env example_payload ''E'' ''A'' = [0, 1, 2, 9]"
  "gathered toy_env example_payload ''X'' ''Y'' = []"
  by code_simp+

lemma example_unions:
  "idx_of (mapping_of example_payload) ''A'' \<union> idx_of (mapping_of example_payload) ''B'' =
     {0, 1, 2, 3, 4}"
  "idx_of (mapping_of example_payload) ''C'' \<union> idx_of (mapping_of example_payload) ''D'' = {0, 1}"
  "idx_of (mapping_of example_payload) ''X'' \<union> idx_of (mapping_of example_payload) ''Y'' = {}"
  by (auto simp: idx_of_def mapping_of_def example_payload_def)

lemma example_iloc:
  "iloc example_parcels [0, 1, 2, 3, 4] = Inr example_parcels"
  "iloc example_parcels [0, 1] =
     Inr (example_parcels\<lparr>df_rows := take 2 (df_rows example_parcels)\<rparr>)"
  "iloc example_parcels [0, 1, 2, 9] = Inl IndexError"
  by (simp_all add: iloc_def example_parcels_def)

lemma example_counts:
  "count_sales example_parcels = 4"
  "count_sales (example_parcels\<lparr>df_rows := take 2 (df_rows example_parcels)\<rparr>) = 2"
  by (simp_all add: count_sales_def example_parcels_def mk_row_def notna_def)

lemma example_floats:
  "astype_rows (df_rows example_parcels) =
     Inr [(Fin 3, Fin 1, Fin 2), (Fin 3, Fin 2, Fin 1), (Fin 6, Fin 3, Fin 3),
          (Fin 4, Fin 4, Fin 0), (NaN, Fin 5, Fin 5)]"
  by (simp add: example_parcels_def mk_row_def astype_float_def bind_exn_def)

lemma example_complete:
  "dropna [(Fin 3, Fin 1, Fin 2), (Fin 3, Fin 2, Fin 1), (Fin 6, Fin 3, Fin 3),
          (Fin 4, Fin 4, Fin 0), (NaN, Fin 5, Fin 5)] =
     [(Fin 3, Fin 1, Fin 2), (Fin 3, Fin 2, Fin 1), (Fin 6, Fin 3, Fin 3), (Fin 4, Fin 4, Fin 0)]"
  by (simp add: dropna_def)

lemma example_fit_data:
  "fit_y [(Fin 3, Fin 1, Fin 2), (Fin 3, Fin 2, Fin 1), (Fin 6, Fin 3, Fin 3), (Fin 4, Fin 4, Fin 0)]
     = example_y"
  "fit_X [(Fin 3, Fin 1, Fin 2), (Fin 3, Fin 2, Fin 1), (Fin 6, Fin 3, Fin 3), (Fin 4, Fin 4, Fin 0)]
     = example_X"
  by (simp_all add: fit_y_def fit_X_def example_y_def example_X_def)

lemma example_cols:
  "list_all (\<lambda>c. c \<in> set (df_columns example_parcels)) required_cols"
  by (simp add: example_parcels_def required_cols_def)

text \<open>
  The theorem on the example: tiles \<open>A\<close> and \<open>B\<close> gather five parcels, four of them sold
  and complete, and the fit is exact; tiles \<open>C\<close> and \<open>D\<close> gather two parcels, both sold;
  tiles \<open>X\<close> and \<open>Y\<close> have no parcels.
\<close>

theorem score_edge_branches_witness:
  "score_edge_pair_worker toy_env example_payload [''A'', ''B''] = (''A'', ''B'', Fin 1, 4, 4) \<and>
   score_edge_pair_worker toy_env example_payload [''C'', ''D''] = (''C'', ''D'', Fin 0, 2, 2) \<and>
   score_edge_pair_worker toy_env example_payload [''X'', ''Y''] = (''X'', ''Y'', Fin 0, 0, 0)"
proof -
  let ?floats = "[(Fin 3, Fin 1, Fin 2), (Fin 3, Fin 2, Fin 1), (Fin 6, Fin 3, Fin 3),
          (Fin 4, Fin 4, Fin 0), (NaN, Fin 5, Fin 5)]"
  let ?sub2 = "example_parcels\<lparr>df_rows := take 2 (df_rows example_parcels)\<rparr>"
  have df: "PARCELS_MIN_DF example_payload = Some example_parcels"
    by (simp add: example_payload_def)
  have ab: "set (gathered toy_env example_payload ''A'' ''B'') =
      idx_of (mapping_of example_payload) ''A'' \<union> idx_of (mapping_of example_payload) ''B''"
    "distinct (gathered toy_env example_payload ''A'' ''B'')"
    by (simp_all add: example_gathered example_unions)
  have cd: "set (gathered toy_env example_payload ''C'' ''D'') =
      idx_of (mapping_of example_payload) ''C'' \<union> idx_of (mapping_of example_payload) ''D''"
    "distinct (gathered toy_env example_payload ''C'' ''D'')"
    by (simp_all add: example_gathered example_unions)
  have xy: "set (gathered toy_env example_payload ''X'' ''Y'') =
      idx_of (mapping_of example_payload) ''X'' \<union> idx_of (mapping_of example_payload) ''Y''"
    "distinct (gathered toy_env example_payload ''X'' ''Y'')"
    by (simp_all add: example_gathered example_unions)
  have 1: "score_edge_pair_worker toy_env example_payload [''A'', ''B''] = (''A'', ''B'', Fin 1, 4, 4)"
    using score_edge_branches[OF ab, of example_parcels example_parcels ?floats]
    by (simp add: df example_gathered example_unions example_iloc example_counts example_cols
        example_floats example_complete example_fit_data toy_fit)
  have 2: "score_edge_pair_worker toy_env example_payload [''C'', ''D''] = (''C'', ''D'', Fin 0, 2, 2)"
    using score_edge_branches[OF cd, of example_parcels ?sub2 ?floats]
    by (simp add: df example_gathered example_unions example_iloc example_counts)
  have 3: "score_edge_pair_worker toy_env example_payload [''X'', ''Y''] = (''X'', ''Y'', Fin 0, 0, 0)"
    using score_edge_branches[OF xy] by (simp add: example_unions)
  from 1 2 3 show ?thesis by (intro conjI)
qed

text \<open>
  The theorem on the example: the score of \<open>A\<close> and \<open>B\<close> is within the bounds; tile \<open>E\<close>
  points outside the table, the body raises and the default keeps the identifiers; a tuple
  of one component cannot be unpacked and the default has empty identifiers.
\<close>

theorem score_edge_worker_safe_witness:
  "fle (Fin (- 1)) (res_r2 (score_edge_pair_worker toy_env example_payload [''A'', ''B''])) \<and>
   fle (res_r2 (score_edge_pair_worker toy_env example_payload [''A'', ''B''])) (Fin 1) \<and>
   score_edge_body toy_env example_payload [''E'', ''A''] = Inl IndexError \<and>
   score_edge_pair_worker toy_env example_payload [''E'', ''A''] = (''E'', ''A'', Fin 0, 0, 0) \<and>
   score_edge_body toy_env example_payload [''A''] = Inl ValueError \<and>
   score_edge_pair_worker toy_env example_payload [''A''] = ([], [], Fin 0, 0, 0) \<and>
   res_r2 (score_edge_pair_worker toy_env example_payload [''C'', ''D'']) = Fin 0"
proof -
  let ?sub2 = "example_parcels\<lparr>df_rows := take 2 (df_rows example_parcels)\<rparr>"
  have df: "PARCELS_MIN_DF example_payload = Some example_parcels"
    by (simp add: example_payload_def)
  note T = score_edge_worker_safe[of toy_env example_payload]
  have 1: "fle (Fin (- 1)) (res_r2 (score_edge_pair_worker toy_env example_payload [''A'', ''B'']))"
    "fle (res_r2 (score_edge_pair_worker toy_env example_payload [''A'', ''B''])) (Fin 1)"
    using T[of "[''A'', ''B'']"] by simp_all
  have ne: "gathered toy_env example_payload ''E'' ''A'' \<noteq> []" by (simp add: example_gathered)
  have 2: "score_edge_body toy_env example_payload [''E'', ''A''] = Inl IndexError"
    using body_bad_index[OF ne df] by (simp add: example_gathered example_iloc)
  have 3: "score_edge_pair_worker toy_env example_payload [''E'', ''A''] = (''E'', ''A'', Fin 0, 0, 0)"
    using T[of "[''E'', ''A'']" _ "''E''" "''A''" IndexError] 2 by simp
  have 4: "score_edge_body toy_env example_payload [''A''] = Inl ValueError"
    by (simp add: body_not_pair)
  have 5: "score_edge_pair_worker toy_env example_payload [''A''] = ([], [], Fin 0, 0, 0)"
    using T[of "[''A'']" _ _ _ ValueError] 4 by simp
  have 6: "res_r2 (score_edge_pair_worker toy_env example_payload [''C'', ''D'']) = Fin 0"
    using T[of "[''C'', ''D'']" _ "''C''" "''D''" _ example_parcels ?sub2]
    by (simp add: df example_gathered example_iloc example_counts)
  from 1 2 3 4 5 6 show ?thesis by (intro conjI)
qed

end
